theory Spec2Isabelle
  imports Main
begin

section \<open>The chain message handler of avalanchego (snow/networking/handler)\<close>

text \<open>
  A shallow embedding of \<^verbatim>\<open>handler.go\<close>: the handler is a record of its fields, every
  method takes the handler and returns it updated. What a method does to its collaborators
  is kept in the handler as well: the engine methods invoked (\<open>calls\<close>), the log lines
  (\<open>logs\<close>), the completion callbacks fired (\<open>finished\<close>) and the counters.
  Engines are black boxes: an engine is a number, and what a method of it returns is read
  from \<open>engines\<close>, a function of the call history, the engine, the call and the state of
  the consensus context.
\<close>

subsection \<open>Identifiers, engine types and lifecycle states\<close>

type_synonym NodeID = nat
type_synonym RequestId = nat
type_synonym bytes = "nat list"
type_synonym ID = "nat list"
type_synonym Time = int

text \<open>\<^verbatim>\<open>p2p.EngineType\<close> is a protobuf enum, an int32 on the wire: a peer may send any value.\<close>

type_synonym EngineType = int

definition EngineType_ENGINE_TYPE_UNSPECIFIED :: EngineType where
  "EngineType_ENGINE_TYPE_UNSPECIFIED = 0"

definition EngineType_ENGINE_TYPE_AVALANCHE :: EngineType where
  "EngineType_ENGINE_TYPE_AVALANCHE = 1"

definition EngineType_ENGINE_TYPE_SNOWMAN :: EngineType where
  "EngineType_ENGINE_TYPE_SNOWMAN = 2"

text \<open>Modelled from the spec: \<^verbatim>\<open>snow.State\<close>, the lifecycle phase of the chain; its
  declaration is not among the sources, the spec lists its values.\<close>

datatype State = StateSyncing | Bootstrapping | NormalOp

record EngineState =
  Type :: EngineType
  State :: State

subsection \<open>The engine manager\<close>

text \<open>An engine is named by a number; \<open>None\<close> is Go's nil.\<close>

record Engine =
  StateSyncer :: "nat option"
  Bootstrapper :: "nat option"
  Consensus :: "nat option"

record EngineManager =
  Avalanche :: "Engine option"
  Snowman :: "Engine option"

text \<open>Modelled from the spec: \<^verbatim>\<open>EngineManager.Get\<close> (engine_manager.go is not among the
  sources). The manager maps an engine type to the engines of that type; any type other than
  Avalanche and Snowman has none.\<close>

definition EngineManager_Get :: "EngineManager \<Rightarrow> EngineType \<Rightarrow> Engine option" where
  "EngineManager_Get em t =
     (if t = EngineType_ENGINE_TYPE_AVALANCHE then Avalanche em
      else if t = EngineType_ENGINE_TYPE_SNOWMAN then Snowman em
      else None)"

text \<open>Modelled from the spec: \<^verbatim>\<open>Engine.Get\<close> (engine_manager.go is not among the
  sources). The engines of a type are keyed by lifecycle state; the second result of the Go
  method, whether an engine is there, is \<open>Some\<close> here. The receiver may be nil.\<close>

fun Engine_Get :: "Engine option \<Rightarrow> State \<Rightarrow> nat option" where
  "Engine_Get None s = None"
| "Engine_Get (Some e) StateSyncing = StateSyncer e"
| "Engine_Get (Some e) Bootstrapping = Bootstrapper e"
| "Engine_Get (Some e) NormalOp = Consensus e"

subsection \<open>Messages\<close>

text \<open>Modelled from the spec: \<^verbatim>\<open>message.Op\<close>, the operation kind of a message
  (message/ops.go is not among the sources). The operations the handler names, and
  \<open>OtherOp\<close> for every other value of the type.\<close>

datatype Op =
    GetStateSummaryFrontierOp | GetStateSummaryFrontierFailedOp | StateSummaryFrontierOp
  | GetAcceptedStateSummaryOp | GetAcceptedStateSummaryFailedOp | AcceptedStateSummaryOp
  | GetAcceptedFrontierOp | GetAcceptedFrontierFailedOp | AcceptedFrontierOp
  | GetAcceptedOp | GetAcceptedFailedOp | AcceptedOp
  | GetAncestorsOp | GetAncestorsFailedOp | AncestorsOp
  | GetOp | GetFailedOp | PutOp | PushQueryOp | PullQueryOp | QueryFailedOp | ChitsOp
  | AppRequestOp | AppRequestFailedOp | AppResponseOp | AppGossipOp
  | CrossChainAppRequestOp | CrossChainAppRequestFailedOp | CrossChainAppResponseOp
  | ConnectedOp | ConnectedSubnetOp | DisconnectedOp
  | NotifyOp | GossipRequestOp | TimeoutOp
  | OtherOp nat

text \<open>The payload of a message: one constructor for each Go type the handler's type switches
  name (\<^verbatim>\<open>*p2p.X\<close> and \<^verbatim>\<open>*message.X\<close>), and \<open>OtherBody\<close> for any other type.\<close>

datatype Body =
    p2p_GetStateSummaryFrontier RequestId
  | p2p_StateSummaryFrontier RequestId bytes
  | message_GetStateSummaryFrontierFailed RequestId
  | p2p_GetAcceptedStateSummary RequestId "nat list"
  | p2p_AcceptedStateSummary RequestId "bytes list"
  | message_GetAcceptedStateSummaryFailed RequestId
  | p2p_GetAcceptedFrontier RequestId
  | p2p_AcceptedFrontier RequestId "bytes list"
  | message_GetAcceptedFrontierFailed RequestId
  | p2p_GetAccepted RequestId "bytes list"
  | p2p_Accepted RequestId "bytes list"
  | message_GetAcceptedFailed RequestId
  | p2p_GetAncestors RequestId bytes
  | message_GetAncestorsFailed RequestId
  | p2p_Ancestors RequestId "bytes list"
  | p2p_Get RequestId bytes
  | message_GetFailed RequestId
  | p2p_Put RequestId bytes
  | p2p_PushQuery RequestId bytes
  | p2p_PullQuery RequestId bytes
  | p2p_Chits RequestId "bytes list" "bytes list"
  | message_QueryFailed RequestId
  | message_Connected string
  | message_ConnectedSubnet ID
  | message_Disconnected
  | p2p_AppRequest RequestId bytes
  | p2p_AppResponse RequestId bytes
  | message_AppRequestFailed RequestId
  | p2p_AppGossip bytes
  | message_CrossChainAppRequest ID RequestId bytes
  | message_CrossChainAppResponse ID RequestId bytes
  | message_CrossChainAppRequestFailed ID RequestId
  | message_VMMessage nat
  | message_GossipRequest
  | message_Timeout
  | OtherBody

record Message =
  NodeID :: NodeID
  Op :: Op
  Message :: Body
  Expiration :: Time
  EngineType :: EngineType

subsection \<open>Errors\<close>

datatype error =
    errMissingEngine State EngineType
  | errNoStartingGear
  | errUnhandledSyncMsg Op NodeID
  | errUnhandledAsyncMsg Op NodeID
  | errUnhandledChanMsg Op
  | errInvalidID
  | EngineError nat
  | WhileProcessingSync error Message
  | WhileProcessingAsync error Message

datatype panic = NilPointerDereference

subsection \<open>Engine methods\<close>

text \<open>The methods of \<^verbatim>\<open>common.Engine\<close>, \<^verbatim>\<open>common.StateSyncer\<close> and
  \<^verbatim>\<open>common.BootstrapableEngine\<close> that the handler invokes, with their arguments.\<close>

datatype EngineCall =
    GetStateSummaryFrontier NodeID RequestId
  | StateSummaryFrontier NodeID RequestId bytes
  | GetStateSummaryFrontierFailed NodeID RequestId
  | GetAcceptedStateSummary NodeID RequestId "nat list"
  | AcceptedStateSummary NodeID RequestId "ID list"
  | GetAcceptedStateSummaryFailed NodeID RequestId
  | GetAcceptedFrontier NodeID RequestId
  | AcceptedFrontier NodeID RequestId "ID list"
  | GetAcceptedFrontierFailed NodeID RequestId
  | GetAccepted NodeID RequestId "ID list"
  | Accepted NodeID RequestId "ID list"
  | GetAcceptedFailed NodeID RequestId
  | GetAncestors NodeID RequestId ID
  | GetAncestorsFailed NodeID RequestId
  | Ancestors NodeID RequestId "bytes list"
  | Get NodeID RequestId ID
  | GetFailed NodeID RequestId
  | Put NodeID RequestId bytes
  | PushQuery NodeID RequestId bytes
  | PullQuery NodeID RequestId ID
  | Chits NodeID RequestId "ID list" "ID list"
  | QueryFailed NodeID RequestId
  | Connected NodeID string
  | Disconnected NodeID
  | AppRequest NodeID RequestId Time bytes
  | AppResponse NodeID RequestId bytes
  | AppRequestFailed NodeID RequestId
  | AppGossip NodeID bytes
  | CrossChainAppRequest ID RequestId Time bytes
  | CrossChainAppResponse ID RequestId bytes
  | CrossChainAppRequestFailed ID RequestId
  | Notify nat
  | Gossip
  | Timeout
  | IsEnabled
  | Clear
  | Start nat
  | Halt
  | Shutdown
  | EngineHealthCheck

text \<open>What an engine method gives back: the error it returns, the boolean of
  \<^verbatim>\<open>IsEnabled\<close>, the value of \<^verbatim>\<open>HealthCheck\<close>, and the state it leaves in the consensus
  context (an engine may move the chain to its next phase).\<close>

record reply =
  err :: "error option"
  enabled :: bool
  health :: string
  newState :: EngineState

subsection \<open>The message queue\<close>

record MessageQueue =
  items :: "Message list"
  closedQ :: bool

text \<open>Modelled from the spec: \<^verbatim>\<open>MessageQueue.Push\<close> (message_queue.go is not among the
  sources). An open queue takes the message (first in, first out); a queue that was shut
  down drops it, and the message's completion callback fires: the second result lists the
  messages whose completion fired.\<close>

definition MessageQueue_Push :: "Message \<Rightarrow> MessageQueue \<Rightarrow> MessageQueue \<times> Message list" where
  "MessageQueue_Push m q =
     (if closedQ q then (q, [m]) else (q\<lparr>items := items q @ [m]\<rparr>, []))"

datatype popped = Popped Message | NotOk | Blocked

text \<open>Modelled from the spec: \<^verbatim>\<open>MessageQueue.Pop\<close>. It gives the first queued message;
  on an empty queue it is not ok once the queue was shut down, and blocks before.\<close>

definition MessageQueue_Pop :: "MessageQueue \<Rightarrow> popped \<times> MessageQueue" where
  "MessageQueue_Pop q =
     (case items q of
        m # ms \<Rightarrow> (Popped m, q\<lparr>items := ms\<rparr>)
      | [] \<Rightarrow> (if closedQ q then NotOk else Blocked, q))"

text \<open>Modelled from the spec: \<^verbatim>\<open>MessageQueue.Shutdown\<close>. Idempotent; it sets the closed
  flag and keeps the queued messages.\<close>

definition MessageQueue_Shutdown :: "MessageQueue \<Rightarrow> MessageQueue" where
  "MessageQueue_Shutdown q = q\<lparr>closedQ := True\<rparr>"

subsection \<open>The handler\<close>

datatype Level = Verbo | Debug | Warn | Error | Fatal

datatype Metric =
    StartProcessing NodeID Time
  | StopProcessing NodeID Time
  | msgHandlingTime Op Time
  | processingTime Op Time

text \<open>The fields of \<^verbatim>\<open>handler\<close>, and with them what the handler works with and acts on.
  \<open>getIDs\<close> and \<open>ids_ToID\<close> are the decoders \<^verbatim>\<open>getIDs\<close> and \<^verbatim>\<open>ids.ToID\<close>, which are
  not among the sources: they are parameters. \<open>closed\<close> counts how often
  \<^verbatim>\<open>close(h.closed)\<close> ran (Go panics on the second), \<open>onStoppedRuns\<close> how often the
  on-stopped callback was scheduled.\<close>

record handler =
  clock :: "nat \<Rightarrow> Time"
  ticks :: nat
  ctxState :: EngineState
  ctxLocked :: bool
  engineManager :: EngineManager
  engines :: "(nat \<times> EngineCall) list \<Rightarrow> nat \<Rightarrow> EngineCall \<Rightarrow> EngineState \<Rightarrow> reply"
  subnetConnector :: "NodeID \<Rightarrow> ID \<Rightarrow> error option"
  getIDs :: "bytes list \<Rightarrow> error + ID list"
  ids_ToID :: "bytes \<Rightarrow> error + ID"
  onStopped :: bool
  syncMessageQueue :: MessageQueue
  asyncMessageQueue :: MessageQueue
  closeOnce :: bool
  closingChan :: bool
  numDispatchersClosed :: int
  closed :: nat
  calls :: "(nat \<times> EngineCall) list"
  heldAt :: "bool list"
  subnetCalls :: "(NodeID \<times> ID) list"
  logs :: "(Level \<times> string \<times> error option) list"
  finished :: "Message list"
  expired :: nat
  asyncExpired :: nat
  metrics :: "Metric list"
  onStoppedRuns :: nat

definition numDispatchersToClose :: int where
  "numDispatchersToClose = 3"

text \<open>\<^verbatim>\<open>30 * time.Second\<close>: times and durations are counted in seconds.\<close>

definition syncProcessingTimeWarnLimit :: Time where
  "syncProcessingTimeWarnLimit = 30"

text \<open>\<^verbatim>\<open>h.clock.Time()\<close>: every reading takes the next value of the clock.\<close>

definition clock_Time :: "handler \<Rightarrow> Time \<times> handler" where
  "clock_Time h = (clock h (ticks h), h\<lparr>ticks := ticks h + 1\<rparr>)"

text \<open>A log line: its level, its text and the error attached to it (\<^verbatim>\<open>zap.Error\<close>).\<close>

definition Log :: "Level \<Rightarrow> string \<Rightarrow> error option \<Rightarrow> handler \<Rightarrow> handler" where
  "Log l s e h = h\<lparr>logs := logs h @ [(l, s, e)]\<rparr>"

definition OnFinishedHandling :: "Message \<Rightarrow> handler \<Rightarrow> handler" where
  "OnFinishedHandling m h = h\<lparr>finished := finished h @ [m]\<rparr>"

definition observe :: "Metric \<Rightarrow> handler \<Rightarrow> handler" where
  "observe x h = h\<lparr>metrics := metrics h @ [x]\<rparr>"

text \<open>\<^verbatim>\<open>h.ctx.Lock\<close>, as seen by the goroutine that runs the method.\<close>

definition Lock :: "handler \<Rightarrow> handler" where
  "Lock h = h\<lparr>ctxLocked := True\<rparr>"

definition Unlock :: "handler \<Rightarrow> handler" where
  "Unlock h = h\<lparr>ctxLocked := False\<rparr>"

text \<open>Invoking method \<open>c\<close> of engine \<open>e\<close>: the call is recorded, with whether the consensus
  lock was held (\<open>heldAt\<close>), the engine's reply is read and the state the engine leaves in the
  consensus context is stored.\<close>

definition invoke :: "nat \<Rightarrow> EngineCall \<Rightarrow> handler \<Rightarrow> reply \<times> handler" where
  "invoke e c h =
     (let r = engines h (calls h) e c (ctxState h)
      in (r, h\<lparr>calls := calls h @ [(e, c)], heldAt := heldAt h @ [ctxLocked h],
               ctxState := newState r\<rparr>))"

definition engineCall :: "nat \<Rightarrow> EngineCall \<Rightarrow> handler \<Rightarrow> error option \<times> handler" where
  "engineCall e c h = (let (r, h') = invoke e c h in (err r, h'))"

subsection \<open>selectStartingGear\<close>

definition selectStartingGear :: "handler \<Rightarrow> (panic + nat option \<times> error option) \<times> handler" where
  "selectStartingGear h =
     (let state = ctxState h;
          engines = EngineManager_Get (engineManager h) (Type state)
      in case engines of
           None \<Rightarrow> (Inr (None, Some errNoStartingGear), h)
         | Some es \<Rightarrow>
             (case StateSyncer es of
                None \<Rightarrow> (Inr (Bootstrapper es, None), h)
              | Some ss \<Rightarrow>
                  (let (r, h1) = invoke ss IsEnabled h
                   in case err r of
                        Some e \<Rightarrow> (Inr (None, Some e), h1)
                      | None \<Rightarrow>
                          if \<not> enabled r then (Inr (Bootstrapper es, None), h1)
                          else (case Bootstrapper es of
                                  None \<Rightarrow> (Inl NilPointerDereference, h1)
                                | Some b \<Rightarrow>
                                    (let (e, h2) = engineCall b Clear h1
                                     in (Inr (Some ss, e), h2))))))"

subsection \<open>HealthCheck\<close>

definition HealthCheck :: "handler \<Rightarrow> (string option \<times> error option) \<times> handler" where
  "HealthCheck h0 =
     (let h = Lock h0;
          state = ctxState h
      in case Engine_Get (EngineManager_Get (engineManager h) (Type state)) (State state) of
           None \<Rightarrow> ((None, Some (errMissingEngine (State state) (Type state))), Unlock h)
         | Some engine \<Rightarrow>
             (let (r, h1) = invoke engine EngineHealthCheck h
              in ((Some (health r), err r), Unlock h1)))"

subsection \<open>Push\<close>

definition Push :: "Message \<Rightarrow> handler \<Rightarrow> handler" where
  "Push msg h =
     (if Op msg \<in> {AppRequestOp, AppRequestFailedOp, AppResponseOp, AppGossipOp,
                    CrossChainAppRequestOp, CrossChainAppRequestFailedOp,
                    CrossChainAppResponseOp}
      then (let (q, done) = MessageQueue_Push msg (asyncMessageQueue h)
            in h\<lparr>asyncMessageQueue := q, finished := finished h @ done\<rparr>)
      else (let (q, done) = MessageQueue_Push msg (syncMessageQueue h)
            in h\<lparr>syncMessageQueue := q, finished := finished h @ done\<rparr>))"

subsection \<open>Stop and StopWithError\<close>

definition Stop :: "handler \<Rightarrow> handler" where
  "Stop h0 =
     (if closeOnce h0 then h0
      else
        (let h = h0\<lparr>closeOnce := True,
                    syncMessageQueue := MessageQueue_Shutdown (syncMessageQueue h0),
                    asyncMessageQueue := MessageQueue_Shutdown (asyncMessageQueue h0),
                    closingChan := True\<rparr>;
             state = ctxState h
         in case Engine_Get (EngineManager_Get (engineManager h) (Type state)) Bootstrapping of
              None \<Rightarrow> Log Error ''bootstrapping engine doesn't exists'' None h
            | Some bootstrapper \<Rightarrow> snd (invoke bootstrapper Halt h)))"

definition StopWithError :: "error \<Rightarrow> handler \<Rightarrow> handler" where
  "StopWithError e h = Stop (Log Fatal ''shutting down chain'' (Some e) h)"

subsection \<open>shutdown and closeDispatcher\<close>

definition shutdown :: "handler \<Rightarrow> handler" where
  "shutdown h =
     (let state = ctxState h;
          h1 = (case Engine_Get (EngineManager_Get (engineManager h) (Type state)) (State state) of
                  None \<Rightarrow> Log Error ''failed fetching current engine during shutdown'' None h
                | Some engine \<Rightarrow>
                    (let (e, h') = engineCall engine Shutdown h
                     in case e of
                          Some x \<Rightarrow> Log Error ''failed while shutting down the chain'' (Some x) h'
                        | None \<Rightarrow> h'));
          h2 = (if onStopped h1 then h1\<lparr>onStoppedRuns := onStoppedRuns h1 + 1\<rparr> else h1)
      in h2\<lparr>closed := closed h2 + 1\<rparr>)"

definition closeDispatcher :: "handler \<Rightarrow> handler" where
  "closeDispatcher h0 =
     (let h = Lock h0;
          h1 = h\<lparr>numDispatchersClosed := numDispatchersClosed h + 1\<rparr>
      in if numDispatchersClosed h1 < numDispatchersToClose then Unlock h1
         else Unlock (shutdown h1))"

subsection \<open>popUnexpiredMsg\<close>

text \<open>The two queues and the two counters \<^verbatim>\<open>popUnexpiredMsg\<close> is called with.\<close>

datatype QueueRef = SyncQueue | AsyncQueue

datatype CounterRef = ExpiredCounter | AsyncExpiredCounter

fun getQueue :: "QueueRef \<Rightarrow> handler \<Rightarrow> MessageQueue" where
  "getQueue SyncQueue h = syncMessageQueue h"
| "getQueue AsyncQueue h = asyncMessageQueue h"

fun setQueue :: "QueueRef \<Rightarrow> MessageQueue \<Rightarrow> handler \<Rightarrow> handler" where
  "setQueue SyncQueue q h = h\<lparr>syncMessageQueue := q\<rparr>"
| "setQueue AsyncQueue q h = h\<lparr>asyncMessageQueue := q\<rparr>"

fun getCounter :: "CounterRef \<Rightarrow> handler \<Rightarrow> nat" where
  "getCounter ExpiredCounter h = expired h"
| "getCounter AsyncExpiredCounter h = asyncExpired h"

fun Inc :: "CounterRef \<Rightarrow> handler \<Rightarrow> handler" where
  "Inc ExpiredCounter h = h\<lparr>expired := expired h + 1\<rparr>"
| "Inc AsyncExpiredCounter h = h\<lparr>asyncExpired := asyncExpired h + 1\<rparr>"

function popUnexpiredMsg :: "QueueRef \<Rightarrow> CounterRef \<Rightarrow> handler \<Rightarrow> popped \<times> handler" where
  "popUnexpiredMsg queue counter h =
     (case MessageQueue_Pop (getQueue queue h) of
        (Popped msg, q) \<Rightarrow>
          (let h1 = setQueue queue q h;
               (now, h2) = clock_Time h1
           in if Expiration msg < now
              then popUnexpiredMsg queue counter
                     (OnFinishedHandling msg (Inc counter
                        (Log Debug ''dropping message: timeout'' None h2)))
              else (Popped msg, h2))
      | (NotOk, q) \<Rightarrow> (NotOk, h)
      | (Blocked, q) \<Rightarrow> (Blocked, h))"
  by pat_completeness auto

termination popUnexpiredMsg
  apply (relation "measure (\<lambda>(q, c, h). length (items (getQueue q h)))")
   apply simp
  subgoal for queue counter h x1 q msg h1 x2 now h2
    by (cases queue; cases counter)
       (auto simp: MessageQueue_Pop_def clock_Time_def Log_def OnFinishedHandling_def
             split: list.splits if_splits)
  done

declare popUnexpiredMsg.simps [simp del]

subsection \<open>handleSyncMsg\<close>

text \<open>Lines 491 to 505: the engine type a sync message is handled by.\<close>

definition handleSyncMsg_engineType :: "Message \<Rightarrow> EngineState \<Rightarrow> EngineType" where
  "handleSyncMsg_engineType msg currentState =
     (if EngineType msg = EngineType_ENGINE_TYPE_AVALANCHE
         \<or> EngineType msg = EngineType_ENGINE_TYPE_SNOWMAN
      then EngineType msg
      else Type currentState)"

text \<open>Lines 476 to 520: the engine a sync message is handled by; \<open>None\<close> when the message is
  dropped, on either of the two early returns.\<close>

definition handleSyncMsg_engine :: "Message \<Rightarrow> handler \<Rightarrow> nat option \<times> handler" where
  "handleSyncMsg_engine msg h =
     (let currentState = ctxState h
      in if EngineType msg = EngineType_ENGINE_TYPE_SNOWMAN
            \<and> Type currentState = EngineType_ENGINE_TYPE_AVALANCHE
         then (None, Log Debug ''dropping sync message: uninitialized engine type'' None h)
         else
           (let engineType = handleSyncMsg_engineType msg currentState
            in case Engine_Get (EngineManager_Get (engineManager h) engineType)
                      (State currentState) of
                 None \<Rightarrow>
                   (None, Log Debug ''dropping sync message: uninitialized engine state'' None h)
               | Some engine \<Rightarrow> (Some engine, h)))"

text \<open>Modelled from the spec: \<^verbatim>\<open>utils.IsUnique\<close>, which is not among the sources: whether
  no value occurs twice in the list (the spec speaks of a non-unique height list).\<close>

definition utils_IsUnique :: "nat list \<Rightarrow> bool" where
  "utils_IsUnique xs = distinct xs"

text \<open>Lines 526 to 736: the type switch over the payload.\<close>

definition handleSyncMsg_switch ::
    "nat \<Rightarrow> NodeID \<Rightarrow> Op \<Rightarrow> Body \<Rightarrow> handler \<Rightarrow> error option \<times> handler" where
  "handleSyncMsg_switch engine nodeID op body h =
     (case body of
        p2p_GetStateSummaryFrontier r \<Rightarrow> engineCall engine (GetStateSummaryFrontier nodeID r) h
      | p2p_StateSummaryFrontier r summary \<Rightarrow>
          engineCall engine (StateSummaryFrontier nodeID r summary) h
      | message_GetStateSummaryFrontierFailed r \<Rightarrow>
          engineCall engine (GetStateSummaryFrontierFailed nodeID r) h
      | p2p_GetAcceptedStateSummary r heights \<Rightarrow>
          (if \<not> utils_IsUnique heights
           then engineCall engine (GetAcceptedStateSummaryFailed nodeID r)
                  (Log Debug ''message with invalid field'' None h)
           else engineCall engine (GetAcceptedStateSummary nodeID r heights) h)
      | p2p_AcceptedStateSummary r summaryIds \<Rightarrow>
          (case getIDs h summaryIds of
             Inl e \<Rightarrow> engineCall engine (GetAcceptedStateSummaryFailed nodeID r)
                        (Log Debug ''message with invalid field'' (Some e) h)
           | Inr summaryIDs \<Rightarrow> engineCall engine (AcceptedStateSummary nodeID r summaryIDs) h)
      | message_GetAcceptedStateSummaryFailed r \<Rightarrow>
          engineCall engine (GetAcceptedStateSummaryFailed nodeID r) h
      | p2p_GetAcceptedFrontier r \<Rightarrow> engineCall engine (GetAcceptedFrontier nodeID r) h
      | p2p_AcceptedFrontier r containerIds \<Rightarrow>
          (case getIDs h containerIds of
             Inl e \<Rightarrow> engineCall engine (GetAcceptedFrontierFailed nodeID r)
                        (Log Debug ''message with invalid field'' (Some e) h)
           | Inr containerIDs \<Rightarrow> engineCall engine (AcceptedFrontier nodeID r containerIDs) h)
      | message_GetAcceptedFrontierFailed r \<Rightarrow>
          engineCall engine (GetAcceptedFrontierFailed nodeID r) h
      | p2p_GetAccepted r containerIds \<Rightarrow>
          (case getIDs h containerIds of
             Inl e \<Rightarrow> (None, Log Debug ''message with invalid field'' (Some e) h)
           | Inr containerIDs \<Rightarrow> engineCall engine (GetAccepted nodeID r containerIDs) h)
      | p2p_Accepted r containerIds \<Rightarrow>
          (case getIDs h containerIds of
             Inl e \<Rightarrow> engineCall engine (GetAcceptedFailed nodeID r)
                        (Log Debug ''message with invalid field'' (Some e) h)
           | Inr containerIDs \<Rightarrow> engineCall engine (Accepted nodeID r containerIDs) h)
      | message_GetAcceptedFailed r \<Rightarrow> engineCall engine (GetAcceptedFailed nodeID r) h
      | p2p_GetAncestors r containerId \<Rightarrow>
          (case ids_ToID h containerId of
             Inl e \<Rightarrow> (None, Log Debug ''dropping message with invalid field'' (Some e) h)
           | Inr containerID \<Rightarrow> engineCall engine (GetAncestors nodeID r containerID) h)
      | message_GetAncestorsFailed r \<Rightarrow> engineCall engine (GetAncestorsFailed nodeID r) h
      | p2p_Ancestors r containers \<Rightarrow> engineCall engine (Ancestors nodeID r containers) h
      | p2p_Get r containerId \<Rightarrow>
          (case ids_ToID h containerId of
             Inl e \<Rightarrow> (None, Log Debug ''dropping message with invalid field'' (Some e) h)
           | Inr containerID \<Rightarrow> engineCall engine (Get nodeID r containerID) h)
      | message_GetFailed r \<Rightarrow> engineCall engine (GetFailed nodeID r) h
      | p2p_Put r container \<Rightarrow> engineCall engine (Put nodeID r container) h
      | p2p_PushQuery r container \<Rightarrow> engineCall engine (PushQuery nodeID r container) h
      | p2p_PullQuery r containerId \<Rightarrow>
          (case ids_ToID h containerId of
             Inl e \<Rightarrow> (None, Log Debug ''dropping message with invalid field'' (Some e) h)
           | Inr containerID \<Rightarrow> engineCall engine (PullQuery nodeID r containerID) h)
      | p2p_Chits r preferredContainerIds acceptedContainerIds \<Rightarrow>
          (case getIDs h preferredContainerIds of
             Inl e \<Rightarrow> engineCall engine (QueryFailed nodeID r)
                        (Log Debug ''message with invalid field'' (Some e) h)
           | Inr votes \<Rightarrow>
               (case getIDs h acceptedContainerIds of
                  Inl e \<Rightarrow> engineCall engine (QueryFailed nodeID r)
                             (Log Debug ''message with invalid field'' (Some e) h)
                | Inr accepted \<Rightarrow> engineCall engine (Chits nodeID r votes accepted) h))
      | message_QueryFailed r \<Rightarrow> engineCall engine (QueryFailed nodeID r) h
      | message_Connected nodeVersion \<Rightarrow> engineCall engine (Connected nodeID nodeVersion) h
      | message_ConnectedSubnet subnetID \<Rightarrow>
          (subnetConnector h nodeID subnetID,
           h\<lparr>subnetCalls := subnetCalls h @ [(nodeID, subnetID)]\<rparr>)
      | message_Disconnected \<Rightarrow> engineCall engine (Disconnected nodeID) h
      | _ \<Rightarrow> (Some (errUnhandledSyncMsg op nodeID), h))"

text \<open>The deferred function of \<^verbatim>\<open>handleSyncMsg\<close>, lines 447 to 472.\<close>

definition handleSyncMsg_deferred ::
    "Message \<Rightarrow> Time \<Rightarrow> Time \<Rightarrow> bool \<Rightarrow> handler \<Rightarrow> handler" where
  "handleSyncMsg_deferred msg startTime lockAcquiredTime isNormalOp h0 =
     (let h1 = Unlock h0;
          (endTime, h2) = clock_Time h1;
          h3 = observe (StopProcessing (NodeID msg) endTime) h2;
          h4 = observe (msgHandlingTime (Op msg) (lockAcquiredTime - startTime)) h3;
          h5 = observe (processingTime (Op msg) (endTime - startTime)) h4;
          h6 = OnFinishedHandling msg h5;
          h7 = Log Debug ''finished handling sync message'' None h6
      in if syncProcessingTimeWarnLimit < endTime - startTime \<and> isNormalOp
         then Log Warn ''handling sync message took longer than expected'' None h7
         else h7)"

text \<open>Lines 426 to 446: up to the point where \<^verbatim>\<open>handleSyncMsg\<close> holds the consensus lock.
  The results are \<^verbatim>\<open>startTime\<close>, \<^verbatim>\<open>isNormalOp\<close>, \<^verbatim>\<open>lockAcquiredTime\<close> and the
  handler.\<close>

definition handleSyncMsg_entered :: "Message \<Rightarrow> handler \<Rightarrow> Time \<times> bool \<times> Time \<times> handler" where
  "handleSyncMsg_entered msg h0 =
     (let (startTime, h1) = clock_Time h0;
          isNormalOp = (State (ctxState h1) = NormalOp);
          h2 = Log Debug ''forwarding sync message to consensus'' None h1;
          h3 = Log Verbo ''forwarding sync message to consensus'' None h2;
          h4 = observe (StartProcessing (NodeID msg) startTime) h3;
          h5 = Lock h4;
          (lockAcquiredTime, h6) = clock_Time h5
      in (startTime, isNormalOp, lockAcquiredTime, h6))"

definition handleSyncMsg :: "Message \<Rightarrow> handler \<Rightarrow> error option \<times> handler" where
  "handleSyncMsg msg h0 =
     (let (startTime, isNormalOp, lockAcquiredTime, h6) = handleSyncMsg_entered msg h0;
          (result, h7) =
             (case handleSyncMsg_engine msg h6 of
                (None, h') \<Rightarrow> (None, h')
              | (Some engine, h') \<Rightarrow>
                  handleSyncMsg_switch engine (NodeID msg) (Op msg) (Message msg) h')
      in (result, handleSyncMsg_deferred msg startTime lockAcquiredTime isNormalOp h7))"

subsection \<open>executeAsyncMsg and handleAsyncMsg\<close>

definition executeAsyncMsg_deferred :: "Message \<Rightarrow> Time \<Rightarrow> handler \<Rightarrow> handler" where
  "executeAsyncMsg_deferred msg startTime h0 =
     (let (endTime, h1) = clock_Time h0;
          h2 = observe (StopProcessing (NodeID msg) endTime) h1;
          h3 = observe (processingTime (Op msg) (endTime - startTime)) h2;
          h4 = observe (msgHandlingTime (Op msg) (endTime - startTime)) h3;
          h5 = OnFinishedHandling msg h4
      in Log Debug ''finished handling async message'' None h5)"

text \<open>Lines 753 to 768: the start of \<^verbatim>\<open>executeAsyncMsg\<close>; no lock is taken. The results
  are \<^verbatim>\<open>startTime\<close> and the handler.\<close>

definition executeAsyncMsg_entered :: "Message \<Rightarrow> handler \<Rightarrow> Time \<times> handler" where
  "executeAsyncMsg_entered msg h0 =
     (let (startTime, h1) = clock_Time h0;
          h2 = Log Debug ''forwarding async message to consensus'' None h1;
          h3 = Log Verbo ''forwarding async message to consensus'' None h2;
          h4 = observe (StartProcessing (NodeID msg) startTime) h3
      in (startTime, h4))"

text \<open>Lines 796 to 844: the type switch over the payload.\<close>

definition executeAsyncMsg_switch :: "nat \<Rightarrow> Message \<Rightarrow> handler \<Rightarrow> error option \<times> handler" where
  "executeAsyncMsg_switch engine msg h =
     (case Message msg of
        p2p_AppRequest r appBytes \<Rightarrow>
          engineCall engine (AppRequest (NodeID msg) r (Expiration msg) appBytes) h
      | p2p_AppResponse r appBytes \<Rightarrow> engineCall engine (AppResponse (NodeID msg) r appBytes) h
      | message_AppRequestFailed r \<Rightarrow> engineCall engine (AppRequestFailed (NodeID msg) r) h
      | p2p_AppGossip appBytes \<Rightarrow> engineCall engine (AppGossip (NodeID msg) appBytes) h
      | message_CrossChainAppRequest sourceChainID r m \<Rightarrow>
          engineCall engine (CrossChainAppRequest sourceChainID r (Expiration msg) m) h
      | message_CrossChainAppResponse sourceChainID r m \<Rightarrow>
          engineCall engine (CrossChainAppResponse sourceChainID r m) h
      | message_CrossChainAppRequestFailed sourceChainID r \<Rightarrow>
          engineCall engine (CrossChainAppRequestFailed sourceChainID r) h
      | _ \<Rightarrow> (Some (errUnhandledAsyncMsg (Op msg) (NodeID msg)), h))"

definition executeAsyncMsg :: "Message \<Rightarrow> handler \<Rightarrow> error option \<times> handler" where
  "executeAsyncMsg msg h0 =
     (let (startTime, h4) = executeAsyncMsg_entered msg h0;
          state = ctxState h4;
          (result, h5) =
             (case Engine_Get (EngineManager_Get (engineManager h4) (Type state)) (State state) of
                None \<Rightarrow> (Some (errMissingEngine (State state) (Type state)), h4)
              | Some engine \<Rightarrow> executeAsyncMsg_switch engine msg h4)
      in (result, executeAsyncMsg_deferred msg startTime h5))"

text \<open>The task \<^verbatim>\<open>handleAsyncMsg\<close> sends to the worker pool, as it runs on a worker.\<close>

definition handleAsyncMsg :: "Message \<Rightarrow> handler \<Rightarrow> handler" where
  "handleAsyncMsg msg h =
     (case executeAsyncMsg msg h of
        (Some e, h1) \<Rightarrow> StopWithError (WhileProcessingAsync e msg) h1
      | (None, h1) \<Rightarrow> h1)"

subsection \<open>handleChanMsg\<close>

definition handleChanMsg_deferred ::
    "Message \<Rightarrow> Time \<Rightarrow> Time \<Rightarrow> bool \<Rightarrow> handler \<Rightarrow> handler" where
  "handleChanMsg_deferred msg startTime lockAcquiredTime isNormalOp h0 =
     (let h1 = Unlock h0;
          (endTime, h2) = clock_Time h1;
          h3 = observe (msgHandlingTime (Op msg) (lockAcquiredTime - startTime)) h2;
          h4 = observe (processingTime (Op msg) (endTime - startTime)) h3;
          h5 = OnFinishedHandling msg h4;
          h6 = Log Debug ''finished handling chan message'' None h5
      in if syncProcessingTimeWarnLimit < endTime - startTime \<and> isNormalOp
         then Log Warn ''handling chan message took longer than expected'' None h6
         else h6)"

text \<open>Lines 849 to 865: up to the point where \<^verbatim>\<open>handleChanMsg\<close> holds the consensus lock.
  The results are \<^verbatim>\<open>startTime\<close>, \<^verbatim>\<open>isNormalOp\<close>, \<^verbatim>\<open>lockAcquiredTime\<close> and the
  handler.\<close>

definition handleChanMsg_entered :: "Message \<Rightarrow> handler \<Rightarrow> Time \<times> bool \<times> Time \<times> handler" where
  "handleChanMsg_entered msg h0 =
     (let (startTime, h1) = clock_Time h0;
          isNormalOp = (State (ctxState h1) = NormalOp);
          h2 = Log Debug ''forwarding chan message to consensus'' None h1;
          h3 = Log Verbo ''forwarding chan message to consensus'' None h2;
          h4 = Lock h3;
          (lockAcquiredTime, h5) = clock_Time h4
      in (startTime, isNormalOp, lockAcquiredTime, h5))"

text \<open>Lines 902 to 930: the type switch over the payload; \<open>state\<close> is the state of the
  consensus context that was read on line 891.\<close>

definition handleChanMsg_switch ::
    "nat \<Rightarrow> EngineState \<Rightarrow> Message \<Rightarrow> handler \<Rightarrow> error option \<times> handler" where
  "handleChanMsg_switch engine state msg h =
     (case Message msg of
        message_VMMessage notification \<Rightarrow> engineCall engine (Notify notification) h
      | message_GossipRequest \<Rightarrow>
          (if Type state = EngineType_ENGINE_TYPE_SNOWMAN
           then (case Engine_Get (EngineManager_Get (engineManager h)
                                    EngineType_ENGINE_TYPE_AVALANCHE) (State state) of
                   Some avalancheEngine \<Rightarrow>
                     (case engineCall avalancheEngine Gossip h of
                        (Some e, h') \<Rightarrow> (Some e, h')
                      | (None, h') \<Rightarrow> engineCall engine Gossip h')
                 | None \<Rightarrow> engineCall engine Gossip h)
           else engineCall engine Gossip h)
      | message_Timeout \<Rightarrow> engineCall engine Timeout h
      | _ \<Rightarrow> (Some (errUnhandledChanMsg (Op msg)), h))"

definition handleChanMsg :: "Message \<Rightarrow> handler \<Rightarrow> error option \<times> handler" where
  "handleChanMsg msg h0 =
     (let (startTime, isNormalOp, lockAcquiredTime, h5) = handleChanMsg_entered msg h0;
          state = ctxState h5;
          (result, h6) =
             (case Engine_Get (EngineManager_Get (engineManager h5) (Type state)) (State state) of
                None \<Rightarrow> (Some (errMissingEngine (State state) (Type state)), h5)
              | Some engine \<Rightarrow> handleChanMsg_switch engine state msg h5)
      in (result, handleChanMsg_deferred msg startTime lockAcquiredTime isNormalOp h6))"

text \<open>One turn of the loop of \<^verbatim>\<open>dispatchChans\<close>, lines 413 to 420, for the message \<open>msg\<close>
  that the \<^verbatim>\<open>select\<close> made; \<open>True\<close> when the loop returns, and then the deferred
  \<^verbatim>\<open>closeDispatcher\<close> ran.\<close>

definition dispatchChans_turn :: "Message \<Rightarrow> handler \<Rightarrow> bool \<times> handler" where
  "dispatchChans_turn msg h =
     (case handleChanMsg msg h of
        (Some e, h1) \<Rightarrow> (True, closeDispatcher (StopWithError (WhileProcessingAsync e msg) h1))
      | (None, h1) \<Rightarrow> (False, h1))"

subsection \<open>The handler inside a message handler\<close>

text \<open>The handler as \<^verbatim>\<open>handleSyncMsg\<close>, \<^verbatim>\<open>executeAsyncMsg\<close> and \<^verbatim>\<open>handleChanMsg\<close> have it
  when they look up the engine.\<close>

definition syncLocked :: "Message \<Rightarrow> handler \<Rightarrow> handler" where
  "syncLocked msg h = snd (snd (snd (handleSyncMsg_entered msg h)))"

definition asyncEntered :: "Message \<Rightarrow> handler \<Rightarrow> handler" where
  "asyncEntered msg h = snd (executeAsyncMsg_entered msg h)"

definition chanLocked :: "Message \<Rightarrow> handler \<Rightarrow> handler" where
  "chanLocked msg h = snd (snd (snd (handleChanMsg_entered msg h)))"

subsection \<open>dispatchSync\<close>

text \<open>How a run of a dispatch loop ends: the loop returned, or it waits in \<^verbatim>\<open>Pop\<close> for
  the next message.\<close>

datatype loopEnd = Returned | Waiting

function dispatchSync :: "handler \<Rightarrow> loopEnd \<times> handler" where
  "dispatchSync h =
     (case popUnexpiredMsg SyncQueue ExpiredCounter h of
        (Popped msg, h1) \<Rightarrow>
          (case handleSyncMsg msg h1 of
             (Some e, h2) \<Rightarrow>
               (Returned, closeDispatcher (StopWithError (WhileProcessingSync e msg) h2))
           | (None, h2) \<Rightarrow> dispatchSync h2)
      | (NotOk, h1) \<Rightarrow> (Returned, closeDispatcher h1)
      | (Blocked, h1) \<Rightarrow> (Waiting, h1))"
  by pat_completeness auto

termination dispatchSync
proof (relation "measure (\<lambda>h. length (items (syncMessageQueue h)))", goal_cases)
  case 1
  show ?case by simp
next
  case (2 h x h1 msg xa h2)
  note prims = clock_Time_def Log_def observe_def Lock_def Unlock_def OnFinishedHandling_def
  have sw: "syncMessageQueue (snd (handleSyncMsg_switch e n op b g)) = syncMessageQueue g"
    for e n op b g
    by (cases b)
       (simp_all add: handleSyncMsg_switch_def engineCall_def invoke_def Log_def Let_def
             split: sum.splits)
  have en: "syncMessageQueue (snd (handleSyncMsg_engine m g)) = syncMessageQueue g" for m g
    by (simp add: handleSyncMsg_engine_def Log_def Let_def split: option.splits)
  have de: "syncMessageQueue (handleSyncMsg_deferred m s l n g) = syncMessageQueue g"
    for m s l n g
    by (simp add: handleSyncMsg_deferred_def prims Let_def)
  have hq: "syncMessageQueue (snd (handleSyncMsg m g)) = syncMessageQueue g"
    for m g
    by (simp add: handleSyncMsg_def handleSyncMsg_entered_def prims Let_def split_beta
          option.case_eq_if sw en de)
  have ck: "clock (setQueue q qq g) = clock g" "ticks (setQueue q qq g) = ticks g" for q qq g
    by (cases q; simp)+
  have pop: "length (items (getQueue q h')) < length (items (getQueue q h0))"
    if "popUnexpiredMsg q c h0 = (Popped m, h')" for q c h0 m h'
    using that
  proof (induction "items (getQueue q h0)" arbitrary: h0)
    case Nil
    have "popUnexpiredMsg q c h0 = (if closedQ (getQueue q h0) then NotOk else Blocked, h0)"
      using Nil(1)[symmetric] by (subst popUnexpiredMsg.simps) (simp add: MessageQueue_Pop_def)
    with Nil(2) show ?case by (simp split: if_splits)
  next
    case (Cons a as)
    let ?h2 = "(setQueue q ((getQueue q h0)\<lparr>items := as\<rparr>) h0)\<lparr>ticks := ticks h0 + 1\<rparr>"
    let ?h3 = "OnFinishedHandling a (Inc c (Log Debug ''dropping message: timeout'' None ?h2))"
    have eq: "popUnexpiredMsg q c h0 =
        (if Expiration a < clock h0 (ticks h0) then popUnexpiredMsg q c ?h3 else (Popped a, ?h2))"
      using Cons(2)[symmetric]
      by (subst popUnexpiredMsg.simps) (simp add: MessageQueue_Pop_def clock_Time_def ck)
    have q2: "items (getQueue q ?h2) = as"
      by (cases q) simp_all
    have q3: "items (getQueue q ?h3) = as"
      by (cases q; cases c) (simp_all add: prims)
    show ?case
    proof (cases "Expiration a < clock h0 (ticks h0)")
      case True
      with eq Cons(3) have "popUnexpiredMsg q c ?h3 = (Popped m, h')" by simp
      from Cons(1)[OF q3[symmetric] this] q3 Cons(2)[symmetric] show ?thesis by simp
    next
      case False
      with eq Cons(3) have "h' = ?h2" by simp
      with q2 Cons(2)[symmetric] show ?thesis by simp
    qed
  qed
  from 2 have "popUnexpiredMsg SyncQueue ExpiredCounter h = (Popped msg, h1)" by simp
  from pop[OF this] have "length (items (syncMessageQueue h1)) < length (items (syncMessageQueue h))"
    by simp
  moreover from 2 have "h2 = snd (handleSyncMsg msg h1)" by (metis snd_conv)
  ultimately show ?case by (simp add: hq)
qed

declare dispatchSync.simps [simp del]

subsection \<open>A chain to run the handler on\<close>

text \<open>A linearized chain in normal operation: the Avalanche engines are 1 and 2, the Snowman
  engines 3, 4 and 5. No engine method fails here, the state syncer is enabled, identifiers
  are 32 bytes long and the clock advances by one at each reading.\<close>

definition testEngines ::
    "(nat \<times> EngineCall) list \<Rightarrow> nat \<Rightarrow> EngineCall \<Rightarrow> EngineState \<Rightarrow> reply" where
  "testEngines history e c s = \<lparr>err = None, enabled = True, health = ''ok'', newState = s\<rparr>"

text \<open>Engines of which every method returns an error.\<close>

definition failingEngines ::
    "(nat \<times> EngineCall) list \<Rightarrow> nat \<Rightarrow> EngineCall \<Rightarrow> EngineState \<Rightarrow> reply" where
  "failingEngines history e c s =
     \<lparr>err = Some (EngineError e), enabled = True, health = ''failing'', newState = s\<rparr>"

definition testGetIDs :: "bytes list \<Rightarrow> error + ID list" where
  "testGetIDs bs = (if list_all (\<lambda>b. length b = 32) bs then Inr bs else Inl errInvalidID)"

definition testToID :: "bytes \<Rightarrow> error + ID" where
  "testToID b = (if length b = 32 then Inr b else Inl errInvalidID)"

definition testManager :: EngineManager where
  "testManager =
     \<lparr>Avalanche = Some \<lparr>StateSyncer = None, Bootstrapper = Some 1, Consensus = Some 2\<rparr>,
      Snowman = Some \<lparr>StateSyncer = Some 3, Bootstrapper = Some 4, Consensus = Some 5\<rparr>\<rparr>"

definition testHandler :: handler where
  "testHandler =
     \<lparr>clock = (\<lambda>n. int n), ticks = 0,
      ctxState = \<lparr>Type = EngineType_ENGINE_TYPE_SNOWMAN, State = NormalOp\<rparr>,
      ctxLocked = False,
      engineManager = testManager,
      engines = testEngines,
      subnetConnector = (\<lambda>n s. None),
      getIDs = testGetIDs,
      ids_ToID = testToID,
      onStopped = True,
      syncMessageQueue = \<lparr>items = [], closedQ = False\<rparr>,
      asyncMessageQueue = \<lparr>items = [], closedQ = False\<rparr>,
      closeOnce = False, closingChan = False, numDispatchersClosed = 0, closed = 0,
      calls = [], heldAt = [], subnetCalls = [], logs = [], finished = [],
      expired = 0, asyncExpired = 0, metrics = [], onStoppedRuns = 0\<rparr>"

text \<open>A message of operation \<open>op\<close> with payload \<open>body\<close>, from node 7, that expires at time
  \<open>t\<close> and asks for engine type \<open>et\<close>.\<close>

definition testMessage :: "Op \<Rightarrow> Body \<Rightarrow> Time \<Rightarrow> EngineType \<Rightarrow> Message" where
  "testMessage op body t et =
     \<lparr>NodeID = 7, Op = op, Message = body, Expiration = t, EngineType = et\<rparr>"

section \<open>Properties\<close>

lemmas prims = clock_Time_def Log_def observe_def Lock_def Unlock_def OnFinishedHandling_def

subsection \<open>Starting gear\<close>

text \<open>
  Claim C3. \<^verbatim>\<open>selectStartingGear\<close> fails with \<open>errNoStartingGear\<close> when the engine manager
  has no engines for the engine type recorded in the consensus context; it returns the
  bootstrapper, and invokes no engine method, when no state syncer is registered for that
  type; and when a state syncer is registered and \<^verbatim>\<open>IsEnabled\<close> returns true without an
  error, it invokes \<^verbatim>\<open>Clear\<close> on the bootstrapper and returns the state syncer, together
  with whatever error \<^verbatim>\<open>Clear\<close> returned.
\<close>

theorem selectStartingGear_result:
  "(EngineManager_Get (engineManager h) (Type (ctxState h)) = None \<longrightarrow>
      selectStartingGear h = (Inr (None, Some errNoStartingGear), h)) \<and>
   (\<forall>es. EngineManager_Get (engineManager h) (Type (ctxState h)) = Some es \<and> StateSyncer es = None \<longrightarrow>
      selectStartingGear h = (Inr (Bootstrapper es, None), h)) \<and>
   (\<forall>es ss b.
      EngineManager_Get (engineManager h) (Type (ctxState h)) = Some es \<and>
      StateSyncer es = Some ss \<and> Bootstrapper es = Some b \<and>
      err (engines h (calls h) ss IsEnabled (ctxState h)) = None \<and>
      enabled (engines h (calls h) ss IsEnabled (ctxState h)) \<longrightarrow>
      fst (selectStartingGear h) =
        Inr (Some ss,
             err (engines h (calls h @ [(ss, IsEnabled)]) b Clear
                    (newState (engines h (calls h) ss IsEnabled (ctxState h))))) \<and>
      calls (snd (selectStartingGear h)) = calls h @ [(ss, IsEnabled), (b, Clear)])"
  by (simp add: selectStartingGear_def invoke_def engineCall_def Let_def)

theorem selectStartingGear_result_witness:
  "selectStartingGear (testHandler\<lparr>engineManager := \<lparr>Avalanche = None, Snowman = None\<rparr>\<rparr>)
     = (Inr (None, Some errNoStartingGear), testHandler\<lparr>engineManager := \<lparr>Avalanche = None, Snowman = None\<rparr>\<rparr>) \<and>
   selectStartingGear (testHandler\<lparr>ctxState := \<lparr>Type = EngineType_ENGINE_TYPE_AVALANCHE, State = Bootstrapping\<rparr>\<rparr>)
     = (Inr (Some 1, None), testHandler\<lparr>ctxState := \<lparr>Type = EngineType_ENGINE_TYPE_AVALANCHE, State = Bootstrapping\<rparr>\<rparr>) \<and>
   fst (selectStartingGear testHandler) = Inr (Some 3, None) \<and>
   calls (snd (selectStartingGear testHandler)) = [(3, IsEnabled), (4, Clear)]"
  using selectStartingGear_result [of "testHandler\<lparr>engineManager := \<lparr>Avalanche = None, Snowman = None\<rparr>\<rparr>"]
        selectStartingGear_result [of "testHandler\<lparr>ctxState := \<lparr>Type = EngineType_ENGINE_TYPE_AVALANCHE, State = Bootstrapping\<rparr>\<rparr>"]
        selectStartingGear_result [of testHandler]
  by (simp add: testHandler_def testManager_def testEngines_def EngineManager_Get_def
        EngineType_ENGINE_TYPE_SNOWMAN_def EngineType_ENGINE_TYPE_AVALANCHE_def)

subsection \<open>Health check\<close>

text \<open>
  Claim C10. \<^verbatim>\<open>HealthCheck\<close> reads the current lifecycle state under the consensus lock.
  When no engine is registered for the current engine type and state, it returns the error
  \<open>errMissingEngine\<close> naming the state and the type, and invokes no engine; otherwise it
  returns exactly the value and the error of the current engine's \<^verbatim>\<open>HealthCheck\<close>, which
  it invokes once, holding the lock. The lock is released on return.
\<close>

theorem HealthCheck_result:
  "(Engine_Get (EngineManager_Get (engineManager h) (Type (ctxState h))) (State (ctxState h)) = None \<longrightarrow>
      fst (HealthCheck h) = (None, Some (errMissingEngine (State (ctxState h)) (Type (ctxState h)))) \<and>
      calls (snd (HealthCheck h)) = calls h) \<and>
   (\<forall>engine.
      Engine_Get (EngineManager_Get (engineManager h) (Type (ctxState h))) (State (ctxState h)) = Some engine \<longrightarrow>
      fst (HealthCheck h) =
        (Some (health (engines h (calls h) engine EngineHealthCheck (ctxState h))),
         err (engines h (calls h) engine EngineHealthCheck (ctxState h))) \<and>
      calls (snd (HealthCheck h)) = calls h @ [(engine, EngineHealthCheck)] \<and>
      heldAt (snd (HealthCheck h)) = heldAt h @ [True]) \<and>
   \<not> ctxLocked (snd (HealthCheck h))"
  by (simp add: HealthCheck_def invoke_def Lock_def Unlock_def Let_def split: option.splits)

theorem HealthCheck_result_witness:
  "fst (HealthCheck testHandler) = (Some ''ok'', None) \<and>
   calls (snd (HealthCheck testHandler)) = [(5, EngineHealthCheck)] \<and>
   heldAt (snd (HealthCheck testHandler)) = [True] \<and>
   fst (HealthCheck (testHandler\<lparr>engineManager := \<lparr>Avalanche = None, Snowman = None\<rparr>\<rparr>))
     = (None, Some (errMissingEngine NormalOp EngineType_ENGINE_TYPE_SNOWMAN))"
  using HealthCheck_result [of testHandler]
        HealthCheck_result [of "testHandler\<lparr>engineManager := \<lparr>Avalanche = None, Snowman = None\<rparr>\<rparr>"]
  by (simp add: testHandler_def testManager_def testEngines_def EngineManager_Get_def
        EngineType_ENGINE_TYPE_SNOWMAN_def EngineType_ENGINE_TYPE_AVALANCHE_def)

subsection \<open>Routing of pushed messages\<close>

text \<open>
  Claim C9. \<^verbatim>\<open>Push\<close> hands a message whose operation is one of AppRequest,
  AppRequestFailed, AppResponse, AppGossip, CrossChainAppRequest, CrossChainAppRequestFailed
  and CrossChainAppResponse to the async queue and leaves the sync queue as it is; it hands
  a message of any other operation to the sync queue and leaves the async queue as it is.
  On a queue that was not shut down the message is then the last one queued.
\<close>

theorem Push_routes_by_operation:
  "(Op m \<in> {AppRequestOp, AppRequestFailedOp, AppResponseOp, AppGossipOp,
              CrossChainAppRequestOp, CrossChainAppRequestFailedOp, CrossChainAppResponseOp} \<longrightarrow>
      asyncMessageQueue (Push m h) = fst (MessageQueue_Push m (asyncMessageQueue h)) \<and>
      syncMessageQueue (Push m h) = syncMessageQueue h \<and>
      (\<not> closedQ (asyncMessageQueue h) \<longrightarrow>
         items (asyncMessageQueue (Push m h)) = items (asyncMessageQueue h) @ [m])) \<and>
   (Op m \<notin> {AppRequestOp, AppRequestFailedOp, AppResponseOp, AppGossipOp,
              CrossChainAppRequestOp, CrossChainAppRequestFailedOp, CrossChainAppResponseOp} \<longrightarrow>
      syncMessageQueue (Push m h) = fst (MessageQueue_Push m (syncMessageQueue h)) \<and>
      asyncMessageQueue (Push m h) = asyncMessageQueue h \<and>
      (\<not> closedQ (syncMessageQueue h) \<longrightarrow>
         items (syncMessageQueue (Push m h)) = items (syncMessageQueue h) @ [m]))"
  by (simp add: Push_def MessageQueue_Push_def split_beta)

theorem Push_routes_by_operation_witness:
  "items (asyncMessageQueue (Push (testMessage AppGossipOp (p2p_AppGossip [1]) 100 0) testHandler))
     = [testMessage AppGossipOp (p2p_AppGossip [1]) 100 0] \<and>
   items (syncMessageQueue (Push (testMessage AppGossipOp (p2p_AppGossip [1]) 100 0) testHandler)) = [] \<and>
   items (syncMessageQueue (Push (testMessage PutOp (p2p_Put 1 [2]) 100 0) testHandler))
     = [testMessage PutOp (p2p_Put 1 [2]) 100 0] \<and>
   items (asyncMessageQueue (Push (testMessage PutOp (p2p_Put 1 [2]) 100 0) testHandler)) = []"
  using Push_routes_by_operation [of "testMessage AppGossipOp (p2p_AppGossip [1]) 100 0" testHandler]
        Push_routes_by_operation [of "testMessage PutOp (p2p_Put 1 [2]) 100 0" testHandler]
  by (simp add: testMessage_def testHandler_def MessageQueue_Push_def)

subsection \<open>Primitive steps\<close>

lemma engineCall_fields [simp]:
  "fst (engineCall e c h) = err (engines h (calls h) e c (ctxState h))"
  "calls (snd (engineCall e c h)) = calls h @ [(e, c)]"
  "heldAt (snd (engineCall e c h)) = heldAt h @ [ctxLocked h]"
  "finished (snd (engineCall e c h)) = finished h"
  "subnetCalls (snd (engineCall e c h)) = subnetCalls h"
  "closed (snd (engineCall e c h)) = closed h"
  "numDispatchersClosed (snd (engineCall e c h)) = numDispatchersClosed h"
  "ctxState (snd (engineCall e c h)) = newState (engines h (calls h) e c (ctxState h))"
  "engines (snd (engineCall e c h)) = engines h"
  "engineManager (snd (engineCall e c h)) = engineManager h"
  "ctxLocked (snd (engineCall e c h)) = ctxLocked h"
  by (simp_all add: engineCall_def invoke_def Let_def)

lemma Log_fields [simp]:
  "calls (Log l s x h) = calls h"
  "heldAt (Log l s x h) = heldAt h"
  "finished (Log l s x h) = finished h"
  "subnetCalls (Log l s x h) = subnetCalls h"
  "closed (Log l s x h) = closed h"
  "numDispatchersClosed (Log l s x h) = numDispatchersClosed h"
  "ctxState (Log l s x h) = ctxState h"
  "engines (Log l s x h) = engines h"
  "ctxLocked (Log l s x h) = ctxLocked h"
  "engineManager (Log l s x h) = engineManager h"
  "logs (Log l s x h) = logs h @ [(l, s, x)]"
  by (simp_all add: Log_def)

lemma setQueue_fields [simp]:
  "clock (setQueue q qq h) = clock h"
  "ticks (setQueue q qq h) = ticks h"
  "closed (setQueue q qq h) = closed h"
  "numDispatchersClosed (setQueue q qq h) = numDispatchersClosed h"
  by (cases q; simp)+

subsection \<open>Popping\<close>

lemma popUnexpiredMsg_Nil:
  "items (getQueue q h) = [] \<Longrightarrow>
   popUnexpiredMsg q c h = (if closedQ (getQueue q h) then NotOk else Blocked, h)"
  by (subst popUnexpiredMsg.simps) (simp add: MessageQueue_Pop_def)

lemma popUnexpiredMsg_Cons:
  "items (getQueue q h) = a # as \<Longrightarrow>
   popUnexpiredMsg q c h =
     (if Expiration a < clock h (ticks h)
      then popUnexpiredMsg q c
             (OnFinishedHandling a (Inc c (Log Debug ''dropping message: timeout'' None
                ((setQueue q ((getQueue q h)\<lparr>items := as\<rparr>) h)\<lparr>ticks := ticks h + 1\<rparr>))))
      else (Popped a, (setQueue q ((getQueue q h)\<lparr>items := as\<rparr>) h)\<lparr>ticks := ticks h + 1\<rparr>))"
  by (subst popUnexpiredMsg.simps) (simp add: MessageQueue_Pop_def clock_Time_def)

lemma popUnexpiredMsg_counters:
  "closed (snd (popUnexpiredMsg q c h)) = closed h \<and>
   numDispatchersClosed (snd (popUnexpiredMsg q c h)) = numDispatchersClosed h"
proof (induction "items (getQueue q h)" arbitrary: h)
  case Nil
  then show ?case by (simp add: popUnexpiredMsg_Nil [OF Nil [symmetric]])
next
  case (Cons a as)
  define g where "g = OnFinishedHandling a (Inc c (Log Debug ''dropping message: timeout'' None
                ((setQueue q ((getQueue q h)\<lparr>items := as\<rparr>) h)\<lparr>ticks := ticks h + 1\<rparr>)))"
  have g: "as = items (getQueue q g)" "closed g = closed h"
    "numDispatchersClosed g = numDispatchersClosed h"
    unfolding g_def by (cases q; cases c; simp add: prims)+
  have eq: "popUnexpiredMsg q c h =
     (if Expiration a < clock h (ticks h) then popUnexpiredMsg q c g
      else (Popped a, (setQueue q ((getQueue q h)\<lparr>items := as\<rparr>) h)\<lparr>ticks := ticks h + 1\<rparr>))"
    unfolding g_def by (rule popUnexpiredMsg_Cons [OF Cons(2) [symmetric]])
  show ?case
    using Cons(1) [OF g(1)] g(2,3) by (simp add: eq)
qed

subsection \<open>Sync messages\<close>

lemma handleSyncMsg_entered_eq:
  "handleSyncMsg_entered msg h =
     (clock h (ticks h), State (ctxState h) = NormalOp, clock h (ticks h + 1), syncLocked msg h)"
  by (simp add: syncLocked_def handleSyncMsg_entered_def prims Let_def)

lemma syncLocked_fields [simp]:
  "calls (syncLocked m h) = calls h"
  "finished (syncLocked m h) = finished h"
  "subnetCalls (syncLocked m h) = subnetCalls h"
  "closed (syncLocked m h) = closed h"
  "numDispatchersClosed (syncLocked m h) = numDispatchersClosed h"
  "heldAt (syncLocked m h) = heldAt h"
  "ctxLocked (syncLocked m h)"
  "engines (syncLocked m h) = engines h"
  "ctxState (syncLocked m h) = ctxState h"
  "getIDs (syncLocked m h) = getIDs h"
  "ids_ToID (syncLocked m h) = ids_ToID h"
  "engineManager (syncLocked m h) = engineManager h"
  "subnetConnector (syncLocked m h) = subnetConnector h"
  by (simp_all add: syncLocked_def handleSyncMsg_entered_def prims Let_def)

lemma handleSyncMsg_deferred_fields [simp]:
  "calls (handleSyncMsg_deferred m s l n h) = calls h"
  "finished (handleSyncMsg_deferred m s l n h) = finished h @ [m]"
  "subnetCalls (handleSyncMsg_deferred m s l n h) = subnetCalls h"
  "closed (handleSyncMsg_deferred m s l n h) = closed h"
  "numDispatchersClosed (handleSyncMsg_deferred m s l n h) = numDispatchersClosed h"
  "heldAt (handleSyncMsg_deferred m s l n h) = heldAt h"
  "\<not> ctxLocked (handleSyncMsg_deferred m s l n h)"
  by (simp_all add: handleSyncMsg_deferred_def prims Let_def)

lemma handleSyncMsg_engine_fst:
  "fst (handleSyncMsg_engine msg h) =
     (if EngineType msg = EngineType_ENGINE_TYPE_SNOWMAN \<and>
         Type (ctxState h) = EngineType_ENGINE_TYPE_AVALANCHE
      then None
      else Engine_Get (EngineManager_Get (engineManager h)
                         (handleSyncMsg_engineType msg (ctxState h))) (State (ctxState h)))"
  by (simp add: handleSyncMsg_engine_def Let_def split: option.splits)

lemma handleSyncMsg_engine_locked:
  "fst (handleSyncMsg_engine msg (syncLocked msg h)) = fst (handleSyncMsg_engine msg h)"
  by (simp add: handleSyncMsg_engine_fst)

lemma handleSyncMsg_engine_Some:
  "fst (handleSyncMsg_engine msg h) = Some e \<Longrightarrow> handleSyncMsg_engine msg h = (Some e, h)"
  by (auto simp add: handleSyncMsg_engine_def Let_def split: option.splits if_splits)

lemma handleSyncMsg_engine_None:
  "fst (handleSyncMsg_engine msg h) = None \<Longrightarrow>
   \<exists>s. handleSyncMsg_engine msg h = (None, Log Debug s None h)"
  by (auto simp add: handleSyncMsg_engine_def Let_def split: option.splits if_splits)

lemma handleSyncMsg_Some:
  "fst (handleSyncMsg_engine msg h) = Some e \<Longrightarrow>
   handleSyncMsg msg h =
     (fst (handleSyncMsg_switch e (NodeID msg) (Op msg) (Message msg) (syncLocked msg h)),
      handleSyncMsg_deferred msg (clock h (ticks h)) (clock h (ticks h + 1))
        (State (ctxState h) = NormalOp)
        (snd (handleSyncMsg_switch e (NodeID msg) (Op msg) (Message msg) (syncLocked msg h))))"
  using handleSyncMsg_engine_Some [of msg "syncLocked msg h" e]
  by (simp add: handleSyncMsg_def handleSyncMsg_entered_eq handleSyncMsg_engine_locked split_beta)

lemma handleSyncMsg_None:
  "fst (handleSyncMsg_engine msg h) = None \<Longrightarrow>
   \<exists>s. handleSyncMsg msg h =
     (None, handleSyncMsg_deferred msg (clock h (ticks h)) (clock h (ticks h + 1))
              (State (ctxState h) = NormalOp) (Log Debug s None (syncLocked msg h)))"
  using handleSyncMsg_engine_None [of msg "syncLocked msg h"]
  by (auto simp add: handleSyncMsg_def handleSyncMsg_entered_eq handleSyncMsg_engine_locked)

lemma handleSyncMsg_switch_counters:
  "closed (snd (handleSyncMsg_switch e n op b h)) = closed h"
  "numDispatchersClosed (snd (handleSyncMsg_switch e n op b h)) = numDispatchersClosed h"
  "finished (snd (handleSyncMsg_switch e n op b h)) = finished h"
  by (cases b; simp add: handleSyncMsg_switch_def split: sum.splits)+

lemma handleSyncMsg_counters:
  "closed (snd (handleSyncMsg m h)) = closed h \<and>
   numDispatchersClosed (snd (handleSyncMsg m h)) = numDispatchersClosed h \<and>
   finished (snd (handleSyncMsg m h)) = finished h @ [m]"
proof (cases "fst (handleSyncMsg_engine m h)")
  case None
  from handleSyncMsg_None [OF this] show ?thesis by auto
next
  case (Some e)
  from handleSyncMsg_Some [OF this] show ?thesis by (simp add: handleSyncMsg_switch_counters)
qed

subsection \<open>Async messages\<close>

lemma executeAsyncMsg_entered_eq:
  "executeAsyncMsg_entered msg h = (clock h (ticks h), asyncEntered msg h)"
  by (simp add: asyncEntered_def executeAsyncMsg_entered_def prims Let_def)

lemma asyncEntered_fields [simp]:
  "calls (asyncEntered m h) = calls h"
  "finished (asyncEntered m h) = finished h"
  "closed (asyncEntered m h) = closed h"
  "numDispatchersClosed (asyncEntered m h) = numDispatchersClosed h"
  "heldAt (asyncEntered m h) = heldAt h"
  "ctxLocked (asyncEntered m h) = ctxLocked h"
  "engines (asyncEntered m h) = engines h"
  "ctxState (asyncEntered m h) = ctxState h"
  "engineManager (asyncEntered m h) = engineManager h"
  by (simp_all add: asyncEntered_def executeAsyncMsg_entered_def prims Let_def)

lemma executeAsyncMsg_deferred_fields [simp]:
  "calls (executeAsyncMsg_deferred m s h) = calls h"
  "finished (executeAsyncMsg_deferred m s h) = finished h @ [m]"
  "closed (executeAsyncMsg_deferred m s h) = closed h"
  "numDispatchersClosed (executeAsyncMsg_deferred m s h) = numDispatchersClosed h"
  "heldAt (executeAsyncMsg_deferred m s h) = heldAt h"
  "closeOnce (executeAsyncMsg_deferred m s h) = closeOnce h"
  "ctxState (executeAsyncMsg_deferred m s h) = ctxState h"
  "engineManager (executeAsyncMsg_deferred m s h) = engineManager h"
  by (simp_all add: executeAsyncMsg_deferred_def prims Let_def)

lemma executeAsyncMsg_switch_counters:
  "closed (snd (executeAsyncMsg_switch e m h)) = closed h"
  "numDispatchersClosed (snd (executeAsyncMsg_switch e m h)) = numDispatchersClosed h"
  "finished (snd (executeAsyncMsg_switch e m h)) = finished h"
  by (cases "Message m"; simp add: executeAsyncMsg_switch_def)+

lemma executeAsyncMsg_eq:
  "executeAsyncMsg msg h =
     (case Engine_Get (EngineManager_Get (engineManager h) (Type (ctxState h)))
             (State (ctxState h)) of
        None \<Rightarrow>
          (Some (errMissingEngine (State (ctxState h)) (Type (ctxState h))),
           executeAsyncMsg_deferred msg (clock h (ticks h)) (asyncEntered msg h))
      | Some engine \<Rightarrow>
          (fst (executeAsyncMsg_switch engine msg (asyncEntered msg h)),
           executeAsyncMsg_deferred msg (clock h (ticks h))
             (snd (executeAsyncMsg_switch engine msg (asyncEntered msg h)))))"
  by (simp add: executeAsyncMsg_def executeAsyncMsg_entered_eq Let_def split_beta
        split: option.splits)

lemma executeAsyncMsg_counters:
  "closed (snd (executeAsyncMsg m h)) = closed h \<and>
   numDispatchersClosed (snd (executeAsyncMsg m h)) = numDispatchersClosed h \<and>
   finished (snd (executeAsyncMsg m h)) = finished h @ [m]"
  by (simp add: executeAsyncMsg_eq executeAsyncMsg_switch_counters split: option.splits)

subsection \<open>Chan messages\<close>

lemma handleChanMsg_entered_eq:
  "handleChanMsg_entered msg h =
     (clock h (ticks h), State (ctxState h) = NormalOp, clock h (ticks h + 1), chanLocked msg h)"
  by (simp add: chanLocked_def handleChanMsg_entered_def prims Let_def)

lemma chanLocked_fields [simp]:
  "calls (chanLocked m h) = calls h"
  "finished (chanLocked m h) = finished h"
  "closed (chanLocked m h) = closed h"
  "numDispatchersClosed (chanLocked m h) = numDispatchersClosed h"
  "heldAt (chanLocked m h) = heldAt h"
  "ctxLocked (chanLocked m h)"
  "engines (chanLocked m h) = engines h"
  "ctxState (chanLocked m h) = ctxState h"
  "engineManager (chanLocked m h) = engineManager h"
  by (simp_all add: chanLocked_def handleChanMsg_entered_def prims Let_def)

lemma handleChanMsg_deferred_fields [simp]:
  "calls (handleChanMsg_deferred m s l n h) = calls h"
  "finished (handleChanMsg_deferred m s l n h) = finished h @ [m]"
  "closed (handleChanMsg_deferred m s l n h) = closed h"
  "numDispatchersClosed (handleChanMsg_deferred m s l n h) = numDispatchersClosed h"
  "heldAt (handleChanMsg_deferred m s l n h) = heldAt h"
  "ctxState (handleChanMsg_deferred m s l n h) = ctxState h"
  "engines (handleChanMsg_deferred m s l n h) = engines h"
  "engineManager (handleChanMsg_deferred m s l n h) = engineManager h"
  by (simp_all add: handleChanMsg_deferred_def prims Let_def)

lemma handleChanMsg_switch_counters:
  "closed (snd (handleChanMsg_switch e st m h)) = closed h"
  "numDispatchersClosed (snd (handleChanMsg_switch e st m h)) = numDispatchersClosed h"
  "finished (snd (handleChanMsg_switch e st m h)) = finished h"
  by (cases "Message m"; simp add: handleChanMsg_switch_def split_beta split: option.splits)+

lemma handleChanMsg_eq:
  "handleChanMsg msg h =
     (case Engine_Get (EngineManager_Get (engineManager h) (Type (ctxState h)))
             (State (ctxState h)) of
        None \<Rightarrow>
          (Some (errMissingEngine (State (ctxState h)) (Type (ctxState h))),
           handleChanMsg_deferred msg (clock h (ticks h)) (clock h (ticks h + 1))
             (State (ctxState h) = NormalOp) (chanLocked msg h))
      | Some engine \<Rightarrow>
          (fst (handleChanMsg_switch engine (ctxState h) msg (chanLocked msg h)),
           handleChanMsg_deferred msg (clock h (ticks h)) (clock h (ticks h + 1))
             (State (ctxState h) = NormalOp)
             (snd (handleChanMsg_switch engine (ctxState h) msg (chanLocked msg h)))))"
  by (simp add: handleChanMsg_def handleChanMsg_entered_eq Let_def split_beta
        split: option.splits)

lemma handleChanMsg_counters:
  "closed (snd (handleChanMsg m h)) = closed h \<and>
   numDispatchersClosed (snd (handleChanMsg m h)) = numDispatchersClosed h \<and>
   finished (snd (handleChanMsg m h)) = finished h @ [m]"
  by (simp add: handleChanMsg_eq handleChanMsg_switch_counters split: option.splits)

subsection \<open>Stopping\<close>

lemma shutdown_fields:
  "closed (shutdown h) = closed h + 1"
  "onStoppedRuns (shutdown h) = onStoppedRuns h + (if onStopped h then 1 else 0)"
  "calls (shutdown h) = calls h @
     (case Engine_Get (EngineManager_Get (engineManager h) (Type (ctxState h))) (State (ctxState h)) of
        None \<Rightarrow> [] | Some e \<Rightarrow> [(e, Shutdown)])"
  "numDispatchersClosed (shutdown h) = numDispatchersClosed h"
  "syncMessageQueue (shutdown h) = syncMessageQueue h"
  "asyncMessageQueue (shutdown h) = asyncMessageQueue h"
  "closeOnce (shutdown h) = closeOnce h"
  "closingChan (shutdown h) = closingChan h"
  "set (logs h) \<subseteq> set (logs (shutdown h))"
  by (auto simp add: shutdown_def engineCall_def invoke_def Log_def Let_def split: option.splits)

lemma closeDispatcher_fields:
  "numDispatchersClosed (closeDispatcher h) = numDispatchersClosed h + 1"
  "closed (closeDispatcher h) = (if numDispatchersClosed h + 1 < 3 then closed h else closed h + 1)"
  "onStoppedRuns (closeDispatcher h) =
     (if numDispatchersClosed h + 1 < 3 then onStoppedRuns h
      else onStoppedRuns h + (if onStopped h then 1 else 0))"
  "calls (closeDispatcher h) = calls h @
     (if numDispatchersClosed h + 1 < 3 then []
      else case Engine_Get (EngineManager_Get (engineManager h) (Type (ctxState h))) (State (ctxState h)) of
             None \<Rightarrow> [] | Some e \<Rightarrow> [(e, Shutdown)])"
  "syncMessageQueue (closeDispatcher h) = syncMessageQueue h"
  "asyncMessageQueue (closeDispatcher h) = asyncMessageQueue h"
  "closeOnce (closeDispatcher h) = closeOnce h"
  "closingChan (closeDispatcher h) = closingChan h"
  "set (logs h) \<subseteq> set (logs (closeDispatcher h))"
  using shutdown_fields(9) [of "Lock h\<lparr>numDispatchersClosed := numDispatchersClosed h + 1\<rparr>"]
  by (simp_all add: closeDispatcher_def numDispatchersToClose_def Lock_def Unlock_def Let_def
        shutdown_fields)

lemma Stop_fields:
  "closed (Stop h) = closed h"
  "numDispatchersClosed (Stop h) = numDispatchersClosed h"
  "onStoppedRuns (Stop h) = onStoppedRuns h"
  "closeOnce (Stop h)"
  "\<not> closeOnce h \<Longrightarrow> closingChan (Stop h)"
  "\<not> closeOnce h \<Longrightarrow> closedQ (syncMessageQueue (Stop h))"
  "\<not> closeOnce h \<Longrightarrow> closedQ (asyncMessageQueue (Stop h))"
  "items (syncMessageQueue (Stop h)) = items (syncMessageQueue h)"
  "items (asyncMessageQueue (Stop h)) = items (asyncMessageQueue h)"
  "calls (Stop h) = calls h @
     (if closeOnce h then []
      else case Engine_Get (EngineManager_Get (engineManager h) (Type (ctxState h))) Bootstrapping of
             None \<Rightarrow> [] | Some b \<Rightarrow> [(b, Halt)])"
  "set (logs h) \<subseteq> set (logs (Stop h))"
  by (auto simp add: Stop_def invoke_def Log_def Let_def MessageQueue_Shutdown_def split: option.splits)

lemma StopWithError_fields:
  "closed (StopWithError e h) = closed h"
  "numDispatchersClosed (StopWithError e h) = numDispatchersClosed h"
  "onStoppedRuns (StopWithError e h) = onStoppedRuns h"
  "closeOnce (StopWithError e h)"
  "\<not> closeOnce h \<Longrightarrow> closingChan (StopWithError e h)"
  "\<not> closeOnce h \<Longrightarrow> closedQ (syncMessageQueue (StopWithError e h))"
  "\<not> closeOnce h \<Longrightarrow> closedQ (asyncMessageQueue (StopWithError e h))"
  "items (syncMessageQueue (StopWithError e h)) = items (syncMessageQueue h)"
  "items (asyncMessageQueue (StopWithError e h)) = items (asyncMessageQueue h)"
  "calls (StopWithError e h) = calls h @
     (if closeOnce h then []
      else case Engine_Get (EngineManager_Get (engineManager h) (Type (ctxState h))) Bootstrapping of
             None \<Rightarrow> [] | Some b \<Rightarrow> [(b, Halt)])"
  "(Fatal, ''shutting down chain'', Some e) \<in> set (logs (StopWithError e h))"
  using Stop_fields(11) [of "Log Fatal ''shutting down chain'' (Some e) h"]
  by (auto simp add: StopWithError_def Stop_fields Log_def)

lemma handleAsyncMsg_counters:
  "closed (handleAsyncMsg m h) = closed h \<and>
   numDispatchersClosed (handleAsyncMsg m h) = numDispatchersClosed h"
  using executeAsyncMsg_counters [of m h]
  by (auto simp add: handleAsyncMsg_def StopWithError_fields split: prod.splits option.splits)

subsection \<open>The terminal shutdown\<close>

text \<open>
  Claim C2. \<^verbatim>\<open>closeDispatcher\<close> counts the dispatch loops that returned. The first and the
  second call only count: they invoke no engine, schedule no on-stopped callback and leave
  the channel \<^verbatim>\<open>closed\<close> open. The third call runs \<^verbatim>\<open>shutdown\<close>: it invokes
  \<^verbatim>\<open>Shutdown\<close> of the current engine if there is one, schedules the on-stopped callback if
  one is set, and closes \<^verbatim>\<open>closed\<close>, exactly once, whatever \<^verbatim>\<open>Shutdown\<close> returns and also
  when no current engine is found. No other step of the three loops (popping, handling a
  sync, async or chan message, \<^verbatim>\<open>Stop\<close>, \<^verbatim>\<open>StopWithError\<close>) closes the channel or
  changes the count.
\<close>

theorem closeDispatcher_shutdown_after_all_three:
  "(numDispatchersClosed h + 1 < numDispatchersToClose \<longrightarrow>
      closed (closeDispatcher h) = closed h \<and>
      onStoppedRuns (closeDispatcher h) = onStoppedRuns h \<and>
      calls (closeDispatcher h) = calls h) \<and>
   (numDispatchersClosed h + 1 = numDispatchersToClose \<longrightarrow>
      closed (closeDispatcher h) = closed h + 1 \<and>
      onStoppedRuns (closeDispatcher h) = onStoppedRuns h + (if onStopped h then 1 else 0) \<and>
      calls (closeDispatcher h) = calls h @
        (case Engine_Get (EngineManager_Get (engineManager h) (Type (ctxState h)))
                (State (ctxState h)) of
           None \<Rightarrow> [] | Some e \<Rightarrow> [(e, Shutdown)])) \<and>
   (numDispatchersClosed h = 0 \<longrightarrow>
      closed (closeDispatcher h) = closed h \<and>
      closed (closeDispatcher (closeDispatcher h)) = closed h \<and>
      closed (closeDispatcher (closeDispatcher (closeDispatcher h))) = closed h + 1) \<and>
   numDispatchersClosed (closeDispatcher h) = numDispatchersClosed h + 1 \<and>
   closed (Stop h) = closed h \<and> numDispatchersClosed (Stop h) = numDispatchersClosed h \<and>
   closed (StopWithError e h) = closed h \<and>
   numDispatchersClosed (StopWithError e h) = numDispatchersClosed h \<and>
   closed (snd (popUnexpiredMsg q c h)) = closed h \<and>
   numDispatchersClosed (snd (popUnexpiredMsg q c h)) = numDispatchersClosed h \<and>
   closed (snd (handleSyncMsg m h)) = closed h \<and>
   numDispatchersClosed (snd (handleSyncMsg m h)) = numDispatchersClosed h \<and>
   closed (handleAsyncMsg m h) = closed h \<and>
   numDispatchersClosed (handleAsyncMsg m h) = numDispatchersClosed h \<and>
   closed (snd (handleChanMsg m h)) = closed h \<and>
   numDispatchersClosed (snd (handleChanMsg m h)) = numDispatchersClosed h"
  by (simp add: closeDispatcher_fields Stop_fields StopWithError_fields popUnexpiredMsg_counters
        handleSyncMsg_counters handleAsyncMsg_counters handleChanMsg_counters
        numDispatchersToClose_def)

lemma testHandler_fields:
  "numDispatchersClosed testHandler = 0" "closed testHandler = 0" "calls testHandler = []"
  "engineManager testHandler = testManager"
  "ctxState testHandler = \<lparr>Type = EngineType_ENGINE_TYPE_SNOWMAN, State = NormalOp\<rparr>"
  "engines testHandler = testEngines" "finished testHandler = []" "expired testHandler = 0"
  "clock testHandler = (\<lambda>n. int n)" "ticks testHandler = 0" "closeOnce testHandler = False"
  "getIDs testHandler = testGetIDs" "logs testHandler = []" "heldAt testHandler = []"
  "onStopped testHandler = True" "onStoppedRuns testHandler = 0"
  by (simp_all add: testHandler_def)

lemma testManager_Get:
  "Engine_Get (EngineManager_Get testManager EngineType_ENGINE_TYPE_SNOWMAN) NormalOp = Some 5"
  "Engine_Get (EngineManager_Get testManager EngineType_ENGINE_TYPE_AVALANCHE) NormalOp = Some 2"
  "Engine_Get (EngineManager_Get testManager EngineType_ENGINE_TYPE_SNOWMAN) Bootstrapping = Some 4"
  "Engine_Get (EngineManager_Get testManager EngineType_ENGINE_TYPE_AVALANCHE) Bootstrapping = Some 1"
  "Engine_Get (EngineManager_Get testManager EngineType_ENGINE_TYPE_SNOWMAN) StateSyncing = Some 3"
  "Engine_Get (EngineManager_Get testManager EngineType_ENGINE_TYPE_AVALANCHE) StateSyncing = None"
  by (simp_all add: testManager_def EngineManager_Get_def EngineType_ENGINE_TYPE_SNOWMAN_def
        EngineType_ENGINE_TYPE_AVALANCHE_def)

theorem closeDispatcher_shutdown_after_all_three_witness:
  "closed (closeDispatcher testHandler) = 0 \<and>
   closed (closeDispatcher (closeDispatcher testHandler)) = 0 \<and>
   closed (closeDispatcher (closeDispatcher (closeDispatcher testHandler))) = 1 \<and>
   calls (closeDispatcher (testHandler\<lparr>numDispatchersClosed := 1\<rparr>)) = [] \<and>
   closed (closeDispatcher (testHandler\<lparr>numDispatchersClosed := 1\<rparr>)) = 0 \<and>
   calls (closeDispatcher (testHandler\<lparr>numDispatchersClosed := 2\<rparr>)) = [(5, Shutdown)] \<and>
   closed (closeDispatcher (testHandler\<lparr>numDispatchersClosed := 2\<rparr>)) = 1"
proof -
  note T = closeDispatcher_shutdown_after_all_three
  have a: "closed (closeDispatcher testHandler) = 0 \<and>
      closed (closeDispatcher (closeDispatcher testHandler)) = 0 \<and>
      closed (closeDispatcher (closeDispatcher (closeDispatcher testHandler))) = 1"
    using T [of testHandler, THEN conjunct2, THEN conjunct2, THEN conjunct1]
    by (simp add: testHandler_fields)
  have b: "calls (closeDispatcher (testHandler\<lparr>numDispatchersClosed := 1\<rparr>)) = [] \<and>
      closed (closeDispatcher (testHandler\<lparr>numDispatchersClosed := 1\<rparr>)) = 0"
    using T [of "testHandler\<lparr>numDispatchersClosed := 1\<rparr>", THEN conjunct1]
    by (simp add: testHandler_fields numDispatchersToClose_def)
  have c: "calls (closeDispatcher (testHandler\<lparr>numDispatchersClosed := 2\<rparr>)) = [(5, Shutdown)] \<and>
      closed (closeDispatcher (testHandler\<lparr>numDispatchersClosed := 2\<rparr>)) = 1"
    using T [of "testHandler\<lparr>numDispatchersClosed := 2\<rparr>", THEN conjunct2, THEN conjunct1]
    by (simp add: testHandler_fields testManager_Get numDispatchersToClose_def)
  from a b c show ?thesis by simp
qed

subsection \<open>Expired messages\<close>

text \<open>
  Claim C8. \<^verbatim>\<open>popUnexpiredMsg\<close> pops messages until one has not expired. With \<open>k\<close> the
  number of messages it dropped: these are the first \<open>k\<close> queued messages, each had expired
  when it was popped, the completion callback ran exactly once for each of them, in order,
  and for nothing else, the counter passed in went up by exactly \<open>k\<close>, and no engine method
  was invoked. The message it returns, if any, is the next one and had not expired; a
  dropped message is never returned, so never handled.
\<close>

theorem popUnexpiredMsg_drops_expired:
  "\<exists>k\<le>length (items (getQueue q h)).
      finished (snd (popUnexpiredMsg q c h)) = finished h @ take k (items (getQueue q h)) \<and>
      getCounter c (snd (popUnexpiredMsg q c h)) = getCounter c h + k \<and>
      calls (snd (popUnexpiredMsg q c h)) = calls h \<and>
      (\<forall>i<k. Expiration (items (getQueue q h) ! i) < clock h (ticks h + i)) \<and>
      (case fst (popUnexpiredMsg q c h) of
         Popped m \<Rightarrow> k < length (items (getQueue q h)) \<and> m = items (getQueue q h) ! k \<and>
                     \<not> Expiration m < clock h (ticks h + k)
       | NotOk \<Rightarrow> k = length (items (getQueue q h))
       | Blocked \<Rightarrow> k = length (items (getQueue q h)))"
proof (induction "items (getQueue q h)" arbitrary: h)
  case Nil
  then show ?case by (simp add: popUnexpiredMsg_Nil [OF Nil [symmetric]])
next
  case (Cons a as)
  define g where "g = OnFinishedHandling a (Inc c (Log Debug ''dropping message: timeout'' None
                ((setQueue q ((getQueue q h)\<lparr>items := as\<rparr>) h)\<lparr>ticks := ticks h + 1\<rparr>)))"
  note its = Cons(2) [symmetric]
  show ?case
  proof (cases "Expiration a < clock h (ticks h)")
    case False
    have "popUnexpiredMsg q c h =
        (Popped a, (setQueue q ((getQueue q h)\<lparr>items := as\<rparr>) h)\<lparr>ticks := ticks h + 1\<rparr>)"
      using False by (simp add: popUnexpiredMsg_Cons [OF its])
    then show ?thesis
      using False its by (intro exI [of _ 0]) (cases q; cases c; simp)
  next
    case True
    have eq: "popUnexpiredMsg q c h = popUnexpiredMsg q c g"
      using True by (simp add: popUnexpiredMsg_Cons [OF its] g_def)
    have "as = items (getQueue q g)"
      unfolding g_def by (cases q; cases c; simp add: prims)
    from Cons(1) [OF this] obtain k where k:
      "k \<le> length (items (getQueue q g))"
      "finished (snd (popUnexpiredMsg q c g)) = finished g @ take k (items (getQueue q g))"
      "getCounter c (snd (popUnexpiredMsg q c g)) = getCounter c g + k"
      "calls (snd (popUnexpiredMsg q c g)) = calls g"
      "\<forall>i<k. Expiration (items (getQueue q g) ! i) < clock g (ticks g + i)"
      "(case fst (popUnexpiredMsg q c g) of
         Popped m \<Rightarrow> k < length (items (getQueue q g)) \<and> m = items (getQueue q g) ! k \<and>
                     \<not> Expiration m < clock g (ticks g + k)
       | NotOk \<Rightarrow> k = length (items (getQueue q g))
       | Blocked \<Rightarrow> k = length (items (getQueue q g)))"
      by blast
    have g: "items (getQueue q g) = as" "clock g = clock h" "ticks g = ticks h + 1"
      "finished g = finished h @ [a]" "getCounter c g = getCounter c h + 1" "calls g = calls h"
      unfolding g_def by (cases q; cases c; simp add: prims)+
    have all: "\<forall>i<Suc k. Expiration ((a # as) ! i) < clock h (ticks h + i)"
    proof (intro allI impI)
      fix i assume "i < Suc k"
      then show "Expiration ((a # as) ! i) < clock h (ticks h + i)"
        using True k(5) g by (cases i) auto
    qed
    show ?thesis
      apply (rule exI [of _ "Suc k"])
      using k(1-4,6) all g its eq
      by (auto split: popped.splits)
  qed
qed

theorem popUnexpiredMsg_drops_expired_witness:
  "fst (popUnexpiredMsg SyncQueue ExpiredCounter
          (testHandler\<lparr>ticks := 50,
             syncMessageQueue := \<lparr>items = [testMessage PutOp (p2p_Put 1 [2]) 10 0,
                                           testMessage PutOp (p2p_Put 2 [3]) 100 0],
                                  closedQ = False\<rparr>\<rparr>))
     = Popped (testMessage PutOp (p2p_Put 2 [3]) 100 0) \<and>
   finished (snd (popUnexpiredMsg SyncQueue ExpiredCounter
          (testHandler\<lparr>ticks := 50,
             syncMessageQueue := \<lparr>items = [testMessage PutOp (p2p_Put 1 [2]) 10 0,
                                           testMessage PutOp (p2p_Put 2 [3]) 100 0],
                                  closedQ = False\<rparr>\<rparr>)))
     = [testMessage PutOp (p2p_Put 1 [2]) 10 0] \<and>
   expired (snd (popUnexpiredMsg SyncQueue ExpiredCounter
          (testHandler\<lparr>ticks := 50,
             syncMessageQueue := \<lparr>items = [testMessage PutOp (p2p_Put 1 [2]) 10 0,
                                           testMessage PutOp (p2p_Put 2 [3]) 100 0],
                                  closedQ = False\<rparr>\<rparr>))) = 1 \<and>
   calls (snd (popUnexpiredMsg SyncQueue ExpiredCounter
          (testHandler\<lparr>ticks := 50,
             syncMessageQueue := \<lparr>items = [testMessage PutOp (p2p_Put 1 [2]) 10 0,
                                           testMessage PutOp (p2p_Put 2 [3]) 100 0],
                                  closedQ = False\<rparr>\<rparr>))) = []"
proof -
  define a where "a = testMessage PutOp (p2p_Put 1 [2]) 10 0"
  define b where "b = testMessage PutOp (p2p_Put 2 [3]) 100 0"
  define h where "h = testHandler\<lparr>ticks := 50,
             syncMessageQueue := \<lparr>items = [a, b], closedQ = False\<rparr>\<rparr>"
  have ab: "Expiration a = 10" "Expiration b = 100" "a \<noteq> b"
    by (simp_all add: a_def b_def testMessage_def)
  have hf: "items (syncMessageQueue h) = [a, b]" "finished h = []" "calls h = []"
    "expired h = 0" "clock h = (\<lambda>n. int n)" "ticks h = 50"
    by (simp_all add: h_def testHandler_fields)
  from popUnexpiredMsg_drops_expired [of SyncQueue h ExpiredCounter] obtain k where k0:
    "k \<le> length (items (getQueue SyncQueue h))"
    "finished (snd (popUnexpiredMsg SyncQueue ExpiredCounter h)) =
       finished h @ take k (items (getQueue SyncQueue h))"
    "getCounter ExpiredCounter (snd (popUnexpiredMsg SyncQueue ExpiredCounter h)) =
       getCounter ExpiredCounter h + k"
    "calls (snd (popUnexpiredMsg SyncQueue ExpiredCounter h)) = calls h"
    "\<forall>i<k. Expiration (items (getQueue SyncQueue h) ! i) < clock h (ticks h + i)"
    "(case fst (popUnexpiredMsg SyncQueue ExpiredCounter h) of
         Popped m \<Rightarrow> k < length (items (getQueue SyncQueue h)) \<and>
                     m = items (getQueue SyncQueue h) ! k \<and>
                     \<not> Expiration m < clock h (ticks h + k)
       | NotOk \<Rightarrow> k = length (items (getQueue SyncQueue h))
       | Blocked \<Rightarrow> k = length (items (getQueue SyncQueue h)))"
    by blast
  have k: "k \<le> 2"
    "finished (snd (popUnexpiredMsg SyncQueue ExpiredCounter h)) = take k [a, b]"
    "expired (snd (popUnexpiredMsg SyncQueue ExpiredCounter h)) = k"
    "calls (snd (popUnexpiredMsg SyncQueue ExpiredCounter h)) = []"
    "\<forall>i<k. Expiration ([a, b] ! i) < int (50 + i)"
    "(case fst (popUnexpiredMsg SyncQueue ExpiredCounter h) of
         Popped m \<Rightarrow> k < 2 \<and> m = [a, b] ! k \<and> \<not> Expiration m < int (50 + k)
       | NotOk \<Rightarrow> k = 2
       | Blocked \<Rightarrow> k = 2)"
    using k0 by (auto simp add: hf split: popped.splits)
  have "k \<noteq> 2"
    using k(5) ab by (auto dest: spec [of _ 1])
  moreover have "k \<noteq> 0"
  proof
    assume "k = 0"
    with k(6) ab show False by (auto split: popped.splits)
  qed
  ultimately have k1: "k = 1" using k(1) by arith
  with k(6) have "fst (popUnexpiredMsg SyncQueue ExpiredCounter h) = Popped b"
    by (auto split: popped.splits)
  with k(2-4) k1 show ?thesis
    unfolding h_def a_def b_def by simp
qed

subsection \<open>Responses with a malformed payload\<close>

text \<open>
  Claim C4, as amended. A response-kind sync message (AcceptedStateSummary,
  AcceptedFrontier, Accepted, Chits) whose payload fails to decode is not dropped once an
  engine has been resolved for it: the handler invokes the matching failed callback
  (\<^verbatim>\<open>GetAcceptedStateSummaryFailed\<close>, \<^verbatim>\<open>GetAcceptedFrontierFailed\<close>, \<^verbatim>\<open>GetAcceptedFailed\<close>,
  \<^verbatim>\<open>QueryFailed\<close>) of that engine, once, with the node and the request of the message, and
  returns what the callback returns. A message for which no engine is resolved is dropped
  before its payload is looked at.
\<close>

theorem handleSyncMsg_failed_callbacks:
  "(\<forall>e r ids x.
      fst (handleSyncMsg_engine msg h) = Some e \<and> Message msg = p2p_AcceptedStateSummary r ids \<and>
      getIDs h ids = Inl x \<longrightarrow>
      calls (snd (handleSyncMsg msg h)) = calls h @ [(e, GetAcceptedStateSummaryFailed (NodeID msg) r)] \<and>
      fst (handleSyncMsg msg h) =
        err (engines h (calls h) e (GetAcceptedStateSummaryFailed (NodeID msg) r) (ctxState h))) \<and>
   (\<forall>e r ids x.
      fst (handleSyncMsg_engine msg h) = Some e \<and> Message msg = p2p_AcceptedFrontier r ids \<and>
      getIDs h ids = Inl x \<longrightarrow>
      calls (snd (handleSyncMsg msg h)) = calls h @ [(e, GetAcceptedFrontierFailed (NodeID msg) r)] \<and>
      fst (handleSyncMsg msg h) =
        err (engines h (calls h) e (GetAcceptedFrontierFailed (NodeID msg) r) (ctxState h))) \<and>
   (\<forall>e r ids x.
      fst (handleSyncMsg_engine msg h) = Some e \<and> Message msg = p2p_Accepted r ids \<and>
      getIDs h ids = Inl x \<longrightarrow>
      calls (snd (handleSyncMsg msg h)) = calls h @ [(e, GetAcceptedFailed (NodeID msg) r)] \<and>
      fst (handleSyncMsg msg h) =
        err (engines h (calls h) e (GetAcceptedFailed (NodeID msg) r) (ctxState h))) \<and>
   (\<forall>e r votes accepted.
      fst (handleSyncMsg_engine msg h) = Some e \<and> Message msg = p2p_Chits r votes accepted \<and>
      (isl (getIDs h votes) \<or> isl (getIDs h accepted)) \<longrightarrow>
      calls (snd (handleSyncMsg msg h)) = calls h @ [(e, QueryFailed (NodeID msg) r)] \<and>
      fst (handleSyncMsg msg h) =
        err (engines h (calls h) e (QueryFailed (NodeID msg) r) (ctxState h)))"
proof (intro conjI allI impI; elim conjE)
  fix e r ids x
  assume "fst (handleSyncMsg_engine msg h) = Some e" "Message msg = p2p_AcceptedStateSummary r ids"
    "getIDs h ids = Inl x"
  then show "calls (snd (handleSyncMsg msg h)) = calls h @ [(e, GetAcceptedStateSummaryFailed (NodeID msg) r)]"
    "fst (handleSyncMsg msg h) =
        err (engines h (calls h) e (GetAcceptedStateSummaryFailed (NodeID msg) r) (ctxState h))"
    by (simp_all add: handleSyncMsg_Some handleSyncMsg_switch_def)
next
  fix e r ids x
  assume "fst (handleSyncMsg_engine msg h) = Some e" "Message msg = p2p_AcceptedFrontier r ids"
    "getIDs h ids = Inl x"
  then show "calls (snd (handleSyncMsg msg h)) = calls h @ [(e, GetAcceptedFrontierFailed (NodeID msg) r)]"
    "fst (handleSyncMsg msg h) =
        err (engines h (calls h) e (GetAcceptedFrontierFailed (NodeID msg) r) (ctxState h))"
    by (simp_all add: handleSyncMsg_Some handleSyncMsg_switch_def)
next
  fix e r ids x
  assume "fst (handleSyncMsg_engine msg h) = Some e" "Message msg = p2p_Accepted r ids"
    "getIDs h ids = Inl x"
  then show "calls (snd (handleSyncMsg msg h)) = calls h @ [(e, GetAcceptedFailed (NodeID msg) r)]"
    "fst (handleSyncMsg msg h) =
        err (engines h (calls h) e (GetAcceptedFailed (NodeID msg) r) (ctxState h))"
    by (simp_all add: handleSyncMsg_Some handleSyncMsg_switch_def)
next
  fix e r votes accepted
  assume "fst (handleSyncMsg_engine msg h) = Some e" "Message msg = p2p_Chits r votes accepted"
    "isl (getIDs h votes) \<or> isl (getIDs h accepted)"
  then show "calls (snd (handleSyncMsg msg h)) = calls h @ [(e, QueryFailed (NodeID msg) r)]"
    "fst (handleSyncMsg msg h) =
        err (engines h (calls h) e (QueryFailed (NodeID msg) r) (ctxState h))"
    by (auto simp add: handleSyncMsg_Some handleSyncMsg_switch_def isl_def split: sum.splits)
qed

lemma testMessage_fields [simp]:
  "NodeID (testMessage op b t et) = 7" "Op (testMessage op b t et) = op"
  "Message (testMessage op b t et) = b" "Expiration (testMessage op b t et) = t"
  "EngineType (testMessage op b t et) = et"
  by (simp_all add: testMessage_def)

lemma testHandler_engine:
  "fst (handleSyncMsg_engine (testMessage op b t 0) testHandler) = Some 5"
  by (simp add: handleSyncMsg_engine_fst handleSyncMsg_engineType_def testHandler_fields
        testManager_def EngineManager_Get_def EngineType_ENGINE_TYPE_SNOWMAN_def
        EngineType_ENGINE_TYPE_AVALANCHE_def)

theorem handleSyncMsg_failed_callbacks_witness:
  "calls (snd (handleSyncMsg (testMessage AcceptedStateSummaryOp (p2p_AcceptedStateSummary 9 [[1]]) 100 0)
                 testHandler)) = [(5, GetAcceptedStateSummaryFailed 7 9)] \<and>
   calls (snd (handleSyncMsg (testMessage AcceptedFrontierOp (p2p_AcceptedFrontier 9 [[1]]) 100 0)
                 testHandler)) = [(5, GetAcceptedFrontierFailed 7 9)] \<and>
   calls (snd (handleSyncMsg (testMessage AcceptedOp (p2p_Accepted 9 [[1]]) 100 0)
                 testHandler)) = [(5, GetAcceptedFailed 7 9)] \<and>
   calls (snd (handleSyncMsg (testMessage ChitsOp (p2p_Chits 9 [] [[1]]) 100 0)
                 testHandler)) = [(5, QueryFailed 7 9)]"
proof -
  note T = handleSyncMsg_failed_callbacks
  have a: "calls (snd (handleSyncMsg (testMessage AcceptedStateSummaryOp (p2p_AcceptedStateSummary 9 [[1]]) 100 0)
                 testHandler)) = [(5, GetAcceptedStateSummaryFailed 7 9)]"
    using T [of "testMessage AcceptedStateSummaryOp (p2p_AcceptedStateSummary 9 [[1]]) 100 0" testHandler,
        THEN conjunct1, rule_format, of 5 9 "[[1]]" errInvalidID]
    by (simp add: testHandler_engine testHandler_fields testGetIDs_def)
  have b: "calls (snd (handleSyncMsg (testMessage AcceptedFrontierOp (p2p_AcceptedFrontier 9 [[1]]) 100 0)
                 testHandler)) = [(5, GetAcceptedFrontierFailed 7 9)]"
    using T [of "testMessage AcceptedFrontierOp (p2p_AcceptedFrontier 9 [[1]]) 100 0" testHandler,
        THEN conjunct2, THEN conjunct1, rule_format, of 5 9 "[[1]]" errInvalidID]
    by (simp add: testHandler_engine testHandler_fields testGetIDs_def)
  have c: "calls (snd (handleSyncMsg (testMessage AcceptedOp (p2p_Accepted 9 [[1]]) 100 0)
                 testHandler)) = [(5, GetAcceptedFailed 7 9)]"
    using T [of "testMessage AcceptedOp (p2p_Accepted 9 [[1]]) 100 0" testHandler,
        THEN conjunct2, THEN conjunct2, THEN conjunct1, rule_format, of 5 9 "[[1]]" errInvalidID]
    by (simp add: testHandler_engine testHandler_fields testGetIDs_def)
  have d: "calls (snd (handleSyncMsg (testMessage ChitsOp (p2p_Chits 9 [] [[1]]) 100 0)
                 testHandler)) = [(5, QueryFailed 7 9)]"
    using T [of "testMessage ChitsOp (p2p_Chits 9 [] [[1]]) 100 0" testHandler,
        THEN conjunct2, THEN conjunct2, THEN conjunct2, rule_format, of 5 9 "[]" "[[1]]"]
    by (simp add: testHandler_engine testHandler_fields testGetIDs_def)
  from a b c d show ?thesis by simp
qed

text \<open>
  The claim as it was stated fails: a Chits message with a malformed payload that asks for
  the Avalanche engine, on a chain that has only Snowman engines, is dropped, and no engine
  hears of it.
\<close>

theorem handleSyncMsg_failed_callbacks_counterexample:
  "isl (getIDs (testHandler\<lparr>engineManager := testManager\<lparr>Avalanche := None\<rparr>\<rparr>) [[1]]) \<and>
   fst (handleSyncMsg (testMessage ChitsOp (p2p_Chits 9 [[1]] []) 100 EngineType_ENGINE_TYPE_AVALANCHE)
          (testHandler\<lparr>engineManager := testManager\<lparr>Avalanche := None\<rparr>\<rparr>)) = None \<and>
   calls (snd (handleSyncMsg (testMessage ChitsOp (p2p_Chits 9 [[1]] []) 100 EngineType_ENGINE_TYPE_AVALANCHE)
          (testHandler\<lparr>engineManager := testManager\<lparr>Avalanche := None\<rparr>\<rparr>))) = []"
proof -
  let ?h = "testHandler\<lparr>engineManager := testManager\<lparr>Avalanche := None\<rparr>\<rparr>"
  let ?m = "testMessage ChitsOp (p2p_Chits 9 [[1]] []) 100 EngineType_ENGINE_TYPE_AVALANCHE"
  have "fst (handleSyncMsg_engine ?m ?h) = None"
    by (simp add: handleSyncMsg_engine_fst handleSyncMsg_engineType_def testHandler_fields
          EngineManager_Get_def EngineType_ENGINE_TYPE_SNOWMAN_def
          EngineType_ENGINE_TYPE_AVALANCHE_def)
  from handleSyncMsg_None [OF this] obtain s where
    "handleSyncMsg ?m ?h =
      (None, handleSyncMsg_deferred ?m (clock ?h (ticks ?h)) (clock ?h (ticks ?h + 1))
               (State (ctxState ?h) = NormalOp) (Log Debug s None (syncLocked ?m ?h)))"
    by blast
  then show ?thesis
    by (simp add: testHandler_fields testGetIDs_def)
qed

subsection \<open>Messages for which no engine is registered\<close>

lemma handleAsyncMsg_error:
  "fst (executeAsyncMsg m h) = Some e \<Longrightarrow>
   handleAsyncMsg m h = StopWithError (WhileProcessingAsync e m) (snd (executeAsyncMsg m h))"
  by (cases "executeAsyncMsg m h") (simp add: handleAsyncMsg_def)

lemma dispatchChans_turn_error:
  "fst (handleChanMsg m h) = Some e \<Longrightarrow>
   dispatchChans_turn m h =
     (True, closeDispatcher (StopWithError (WhileProcessingAsync e m) (snd (handleChanMsg m h))))"
  by (cases "handleChanMsg m h") (simp add: dispatchChans_turn_def)

text \<open>
  Claim C1, as amended. Every message handler reads the engine type and the lifecycle state
  of the consensus context when it is called. When no engine is registered for the engine
  type a sync message resolves to and the current state, \<^verbatim>\<open>handleSyncMsg\<close> drops the
  message: it returns no error, invokes no engine, and the completion callback runs once.
  When no engine is registered for the current type and state, \<^verbatim>\<open>executeAsyncMsg\<close> and
  \<^verbatim>\<open>handleChanMsg\<close> return the error \<open>errMissingEngine\<close> instead (no engine is invoked, the
  completion callback runs once), and their callers treat it as fatal: the error is logged
  at the fatal level and \<^verbatim>\<open>Stop\<close> runs; the chan loop returns.
\<close>

theorem missing_engine_drop_or_fatal:
  "(Engine_Get (EngineManager_Get (engineManager h) (handleSyncMsg_engineType msg (ctxState h)))
      (State (ctxState h)) = None \<longrightarrow>
      fst (handleSyncMsg msg h) = None \<and>
      calls (snd (handleSyncMsg msg h)) = calls h \<and>
      finished (snd (handleSyncMsg msg h)) = finished h @ [msg]) \<and>
   (Engine_Get (EngineManager_Get (engineManager h) (Type (ctxState h))) (State (ctxState h)) = None \<longrightarrow>
      fst (executeAsyncMsg msg h) = Some (errMissingEngine (State (ctxState h)) (Type (ctxState h))) \<and>
      calls (snd (executeAsyncMsg msg h)) = calls h \<and>
      finished (snd (executeAsyncMsg msg h)) = finished h @ [msg] \<and>
      (Fatal, ''shutting down chain'',
         Some (WhileProcessingAsync (errMissingEngine (State (ctxState h)) (Type (ctxState h))) msg))
        \<in> set (logs (handleAsyncMsg msg h)) \<and>
      closeOnce (handleAsyncMsg msg h) \<and>
      fst (handleChanMsg msg h) = Some (errMissingEngine (State (ctxState h)) (Type (ctxState h))) \<and>
      calls (snd (handleChanMsg msg h)) = calls h \<and>
      finished (snd (handleChanMsg msg h)) = finished h @ [msg] \<and>
      fst (dispatchChans_turn msg h) \<and>
      (Fatal, ''shutting down chain'',
         Some (WhileProcessingAsync (errMissingEngine (State (ctxState h)) (Type (ctxState h))) msg))
        \<in> set (logs (snd (dispatchChans_turn msg h))) \<and>
      closeOnce (snd (dispatchChans_turn msg h)))"
proof (intro conjI impI)
  assume "Engine_Get (EngineManager_Get (engineManager h) (handleSyncMsg_engineType msg (ctxState h)))
      (State (ctxState h)) = None"
  then have "fst (handleSyncMsg_engine msg h) = None"
    by (simp add: handleSyncMsg_engine_fst)
  from handleSyncMsg_None [OF this]
  show "fst (handleSyncMsg msg h) = None" "calls (snd (handleSyncMsg msg h)) = calls h"
    "finished (snd (handleSyncMsg msg h)) = finished h @ [msg]"
    by auto
next
  let ?e = "errMissingEngine (State (ctxState h)) (Type (ctxState h))"
  assume none: "Engine_Get (EngineManager_Get (engineManager h) (Type (ctxState h)))
      (State (ctxState h)) = None"
  show a: "fst (executeAsyncMsg msg h) = Some ?e"
    and "calls (snd (executeAsyncMsg msg h)) = calls h"
    and "finished (snd (executeAsyncMsg msg h)) = finished h @ [msg]"
    using none by (simp_all add: executeAsyncMsg_eq)
  show c: "fst (handleChanMsg msg h) = Some ?e"
    and "calls (snd (handleChanMsg msg h)) = calls h"
    and "finished (snd (handleChanMsg msg h)) = finished h @ [msg]"
    using none by (simp_all add: handleChanMsg_eq)
  show "(Fatal, ''shutting down chain'', Some (WhileProcessingAsync ?e msg))
        \<in> set (logs (handleAsyncMsg msg h))"
    and "closeOnce (handleAsyncMsg msg h)"
    by (simp_all add: handleAsyncMsg_error [OF a] StopWithError_fields)
  show "fst (dispatchChans_turn msg h)"
    by (simp add: dispatchChans_turn_error [OF c])
  show "(Fatal, ''shutting down chain'', Some (WhileProcessingAsync ?e msg))
        \<in> set (logs (snd (dispatchChans_turn msg h)))"
    using closeDispatcher_fields(9)
      [of "StopWithError (WhileProcessingAsync ?e msg) (snd (handleChanMsg msg h))"]
      StopWithError_fields(11) [of "WhileProcessingAsync ?e msg" "snd (handleChanMsg msg h)"]
    by (auto simp add: dispatchChans_turn_error [OF c])
  show "closeOnce (snd (dispatchChans_turn msg h))"
    by (simp add: dispatchChans_turn_error [OF c] closeDispatcher_fields StopWithError_fields)
qed

lemma noEngines_fields:
  "Engine_Get (EngineManager_Get \<lparr>Avalanche = None, Snowman = None\<rparr> t) s = None"
  by (simp add: EngineManager_Get_def)

theorem missing_engine_drop_or_fatal_witness:
  "fst (handleSyncMsg (testMessage PutOp (p2p_Put 1 [2]) 100 0)
          (testHandler\<lparr>engineManager := \<lparr>Avalanche = None, Snowman = None\<rparr>\<rparr>)) = None \<and>
   calls (snd (handleSyncMsg (testMessage PutOp (p2p_Put 1 [2]) 100 0)
          (testHandler\<lparr>engineManager := \<lparr>Avalanche = None, Snowman = None\<rparr>\<rparr>))) = [] \<and>
   finished (snd (handleSyncMsg (testMessage PutOp (p2p_Put 1 [2]) 100 0)
          (testHandler\<lparr>engineManager := \<lparr>Avalanche = None, Snowman = None\<rparr>\<rparr>)))
     = [testMessage PutOp (p2p_Put 1 [2]) 100 0] \<and>
   fst (handleChanMsg (testMessage TimeoutOp message_Timeout 100 0)
          (testHandler\<lparr>engineManager := \<lparr>Avalanche = None, Snowman = None\<rparr>\<rparr>))
     = Some (errMissingEngine NormalOp EngineType_ENGINE_TYPE_SNOWMAN)"
proof -
  let ?h = "testHandler\<lparr>engineManager := \<lparr>Avalanche = None, Snowman = None\<rparr>\<rparr>"
  have f: "engineManager ?h = \<lparr>Avalanche = None, Snowman = None\<rparr>"
    "ctxState ?h = \<lparr>Type = EngineType_ENGINE_TYPE_SNOWMAN, State = NormalOp\<rparr>"
    "calls ?h = []" "finished ?h = []"
    by (simp_all add: testHandler_fields)
  show ?thesis
    using missing_engine_drop_or_fatal [of ?h "testMessage PutOp (p2p_Put 1 [2]) 100 0", THEN conjunct1]
      missing_engine_drop_or_fatal [of ?h "testMessage TimeoutOp message_Timeout 100 0", THEN conjunct2]
    by (simp add: f noEngines_fields)
qed

text \<open>
  The claim as it was stated fails for async and chan messages: on a chain with no engine
  registered, an AppGossip message makes \<^verbatim>\<open>executeAsyncMsg\<close> return an error, and
  \<^verbatim>\<open>handleAsyncMsg\<close> shuts the chain down for it, with a log line at the fatal level.
\<close>

theorem missing_engine_counterexample:
  "Engine_Get (EngineManager_Get
       (engineManager (testHandler\<lparr>engineManager := \<lparr>Avalanche = None, Snowman = None\<rparr>\<rparr>))
       (Type (ctxState (testHandler\<lparr>engineManager := \<lparr>Avalanche = None, Snowman = None\<rparr>\<rparr>))))
     (State (ctxState (testHandler\<lparr>engineManager := \<lparr>Avalanche = None, Snowman = None\<rparr>\<rparr>))) = None \<and>
   fst (executeAsyncMsg (testMessage AppGossipOp (p2p_AppGossip [1]) 100 0)
          (testHandler\<lparr>engineManager := \<lparr>Avalanche = None, Snowman = None\<rparr>\<rparr>))
     = Some (errMissingEngine NormalOp EngineType_ENGINE_TYPE_SNOWMAN) \<and>
   (Fatal, ''shutting down chain'',
      Some (WhileProcessingAsync (errMissingEngine NormalOp EngineType_ENGINE_TYPE_SNOWMAN)
              (testMessage AppGossipOp (p2p_AppGossip [1]) 100 0)))
     \<in> set (logs (handleAsyncMsg (testMessage AppGossipOp (p2p_AppGossip [1]) 100 0)
          (testHandler\<lparr>engineManager := \<lparr>Avalanche = None, Snowman = None\<rparr>\<rparr>))) \<and>
   closeOnce (handleAsyncMsg (testMessage AppGossipOp (p2p_AppGossip [1]) 100 0)
          (testHandler\<lparr>engineManager := \<lparr>Avalanche = None, Snowman = None\<rparr>\<rparr>)) \<and>
   fst (handleChanMsg (testMessage TimeoutOp message_Timeout 100 0)
          (testHandler\<lparr>engineManager := \<lparr>Avalanche = None, Snowman = None\<rparr>\<rparr>))
     = Some (errMissingEngine NormalOp EngineType_ENGINE_TYPE_SNOWMAN)"
proof -
  let ?h = "testHandler\<lparr>engineManager := \<lparr>Avalanche = None, Snowman = None\<rparr>\<rparr>"
  let ?m = "testMessage AppGossipOp (p2p_AppGossip [1]) 100 0"
  have f: "engineManager ?h = \<lparr>Avalanche = None, Snowman = None\<rparr>"
    "ctxState ?h = \<lparr>Type = EngineType_ENGINE_TYPE_SNOWMAN, State = NormalOp\<rparr>"
    by (simp_all add: testHandler_fields)
  have a: "fst (executeAsyncMsg ?m ?h) = Some (errMissingEngine NormalOp EngineType_ENGINE_TYPE_SNOWMAN)"
    by (simp add: executeAsyncMsg_eq f noEngines_fields)
  have c: "fst (handleChanMsg (testMessage TimeoutOp message_Timeout 100 0) ?h)
      = Some (errMissingEngine NormalOp EngineType_ENGINE_TYPE_SNOWMAN)"
    by (simp add: handleChanMsg_eq f noEngines_fields)
  have d: "(Fatal, ''shutting down chain'',
      Some (WhileProcessingAsync (errMissingEngine NormalOp EngineType_ENGINE_TYPE_SNOWMAN) ?m))
     \<in> set (logs (handleAsyncMsg ?m ?h))"
    by (subst handleAsyncMsg_error [OF a]) (rule StopWithError_fields)
  have e: "closeOnce (handleAsyncMsg ?m ?h)"
    by (subst handleAsyncMsg_error [OF a]) (rule StopWithError_fields)
  have n: "Engine_Get (EngineManager_Get (engineManager ?h) (Type (ctxState ?h)))
     (State (ctxState ?h)) = None"
    by (simp add: f noEngines_fields)
  from n a d e c show ?thesis by blast
qed

subsection \<open>The engine type of a sync message\<close>

lemma handleSyncMsg_switch_calls:
  "calls (snd (handleSyncMsg_switch e n op b h)) = calls h \<or>
   (\<exists>c. calls (snd (handleSyncMsg_switch e n op b h)) = calls h @ [(e, c)])"
  by (cases b; simp add: handleSyncMsg_switch_def split: sum.splits)

lemma handleSyncMsg_calls:
  "calls (snd (handleSyncMsg msg h)) = calls h \<or>
   (\<exists>e c. fst (handleSyncMsg_engine msg h) = Some e \<and>
          calls (snd (handleSyncMsg msg h)) = calls h @ [(e, c)])"
proof (cases "fst (handleSyncMsg_engine msg h)")
  case None
  from handleSyncMsg_None [OF this] show ?thesis by auto
next
  case (Some e)
  from handleSyncMsg_switch_calls [of e "NodeID msg" "Op msg" "Message msg" "syncLocked msg h"]
  show ?thesis
    by (auto simp add: handleSyncMsg_Some [OF Some] Some)
qed

text \<open>
  Claim C6. For a sync message: when the peer asks for Snowman and the chain's current
  engine type is Avalanche, the message is dropped without an error and nothing is invoked.
  Otherwise, when the peer asks for Avalanche or for Snowman, the engine is the one
  registered for the requested type and the current state; for any other requested value
  it is the one registered for the chain's current type and the current state. Every engine
  method \<^verbatim>\<open>handleSyncMsg\<close> invokes is a method of that engine.
\<close>

theorem handleSyncMsg_engine_type_resolution:
  "(EngineType msg = EngineType_ENGINE_TYPE_SNOWMAN \<and>
    Type (ctxState h) = EngineType_ENGINE_TYPE_AVALANCHE \<longrightarrow>
      fst (handleSyncMsg msg h) = None \<and>
      calls (snd (handleSyncMsg msg h)) = calls h \<and>
      subnetCalls (snd (handleSyncMsg msg h)) = subnetCalls h) \<and>
   (\<not> (EngineType msg = EngineType_ENGINE_TYPE_SNOWMAN \<and>
        Type (ctxState h) = EngineType_ENGINE_TYPE_AVALANCHE) \<and>
    (EngineType msg = EngineType_ENGINE_TYPE_AVALANCHE \<or>
     EngineType msg = EngineType_ENGINE_TYPE_SNOWMAN) \<longrightarrow>
      fst (handleSyncMsg_engine msg h) =
        Engine_Get (EngineManager_Get (engineManager h) (EngineType msg)) (State (ctxState h))) \<and>
   (EngineType msg \<noteq> EngineType_ENGINE_TYPE_AVALANCHE \<and>
    EngineType msg \<noteq> EngineType_ENGINE_TYPE_SNOWMAN \<longrightarrow>
      fst (handleSyncMsg_engine msg h) =
        Engine_Get (EngineManager_Get (engineManager h) (Type (ctxState h))) (State (ctxState h))) \<and>
   (\<forall>x\<in>set (drop (length (calls h)) (calls (snd (handleSyncMsg msg h)))).
      fst (handleSyncMsg_engine msg h) = Some (fst x))"
proof (intro conjI impI)
  assume "EngineType msg = EngineType_ENGINE_TYPE_SNOWMAN \<and>
    Type (ctxState h) = EngineType_ENGINE_TYPE_AVALANCHE"
  then have "fst (handleSyncMsg_engine msg h) = None"
    by (simp add: handleSyncMsg_engine_fst)
  from handleSyncMsg_None [OF this]
  show "fst (handleSyncMsg msg h) = None" "calls (snd (handleSyncMsg msg h)) = calls h"
    "subnetCalls (snd (handleSyncMsg msg h)) = subnetCalls h"
    by auto
next
  assume "\<not> (EngineType msg = EngineType_ENGINE_TYPE_SNOWMAN \<and>
        Type (ctxState h) = EngineType_ENGINE_TYPE_AVALANCHE) \<and>
    (EngineType msg = EngineType_ENGINE_TYPE_AVALANCHE \<or>
     EngineType msg = EngineType_ENGINE_TYPE_SNOWMAN)"
  then show "fst (handleSyncMsg_engine msg h) =
        Engine_Get (EngineManager_Get (engineManager h) (EngineType msg)) (State (ctxState h))"
    by (auto simp add: handleSyncMsg_engine_fst handleSyncMsg_engineType_def)
next
  assume "EngineType msg \<noteq> EngineType_ENGINE_TYPE_AVALANCHE \<and>
    EngineType msg \<noteq> EngineType_ENGINE_TYPE_SNOWMAN"
  then show "fst (handleSyncMsg_engine msg h) =
        Engine_Get (EngineManager_Get (engineManager h) (Type (ctxState h))) (State (ctxState h))"
    by (simp add: handleSyncMsg_engine_fst handleSyncMsg_engineType_def)
next
  show "\<forall>x\<in>set (drop (length (calls h)) (calls (snd (handleSyncMsg msg h)))).
      fst (handleSyncMsg_engine msg h) = Some (fst x)"
    using handleSyncMsg_calls [of msg h] by auto
qed

lemma EngineType_values:
  "EngineType_ENGINE_TYPE_SNOWMAN \<noteq> EngineType_ENGINE_TYPE_AVALANCHE"
  "EngineType_ENGINE_TYPE_AVALANCHE \<noteq> EngineType_ENGINE_TYPE_SNOWMAN"
  "EngineType_ENGINE_TYPE_UNSPECIFIED \<noteq> EngineType_ENGINE_TYPE_AVALANCHE"
  "EngineType_ENGINE_TYPE_UNSPECIFIED \<noteq> EngineType_ENGINE_TYPE_SNOWMAN"
  by (simp_all add: EngineType_ENGINE_TYPE_SNOWMAN_def EngineType_ENGINE_TYPE_AVALANCHE_def
        EngineType_ENGINE_TYPE_UNSPECIFIED_def)

theorem handleSyncMsg_engine_type_resolution_witness:
  "fst (handleSyncMsg (testMessage PutOp (p2p_Put 1 [2]) 100 EngineType_ENGINE_TYPE_SNOWMAN)
          (testHandler\<lparr>ctxState := \<lparr>Type = EngineType_ENGINE_TYPE_AVALANCHE, State = NormalOp\<rparr>\<rparr>))
     = None \<and>
   calls (snd (handleSyncMsg (testMessage PutOp (p2p_Put 1 [2]) 100 EngineType_ENGINE_TYPE_SNOWMAN)
          (testHandler\<lparr>ctxState := \<lparr>Type = EngineType_ENGINE_TYPE_AVALANCHE, State = NormalOp\<rparr>\<rparr>)))
     = [] \<and>
   fst (handleSyncMsg_engine (testMessage PutOp (p2p_Put 1 [2]) 100 EngineType_ENGINE_TYPE_AVALANCHE)
          testHandler) = Some 2 \<and>
   fst (handleSyncMsg_engine (testMessage PutOp (p2p_Put 1 [2]) 100 EngineType_ENGINE_TYPE_UNSPECIFIED)
          testHandler) = Some 5 \<and>
   fst (handleSyncMsg_engine (testMessage PutOp (p2p_Put 1 [2]) 100 77) testHandler) = Some 5 \<and>
   calls (snd (handleSyncMsg
                  (testMessage PutOp (p2p_Put 1 [2]) 100 EngineType_ENGINE_TYPE_AVALANCHE)
                  testHandler)) = [(2, Put 7 1 [2])]"
proof -
  note T = handleSyncMsg_engine_type_resolution
  let ?hA = "testHandler\<lparr>ctxState := \<lparr>Type = EngineType_ENGINE_TYPE_AVALANCHE, State = NormalOp\<rparr>\<rparr>"
  have a: "fst (handleSyncMsg (testMessage PutOp (p2p_Put 1 [2]) 100 EngineType_ENGINE_TYPE_SNOWMAN) ?hA)
      = None \<and>
    calls (snd (handleSyncMsg (testMessage PutOp (p2p_Put 1 [2]) 100 EngineType_ENGINE_TYPE_SNOWMAN) ?hA))
      = []"
    using T [of "testMessage PutOp (p2p_Put 1 [2]) 100 EngineType_ENGINE_TYPE_SNOWMAN" ?hA,
        THEN conjunct1]
    by (simp add: testHandler_fields)
  have b: "fst (handleSyncMsg_engine
               (testMessage PutOp (p2p_Put 1 [2]) 100 EngineType_ENGINE_TYPE_AVALANCHE) testHandler)
      = Some 2"
    using T [of "testMessage PutOp (p2p_Put 1 [2]) 100 EngineType_ENGINE_TYPE_AVALANCHE" testHandler,
        THEN conjunct2, THEN conjunct1]
    by (simp add: testHandler_fields testManager_Get EngineType_values)
  have c: "fst (handleSyncMsg_engine
               (testMessage PutOp (p2p_Put 1 [2]) 100 EngineType_ENGINE_TYPE_UNSPECIFIED) testHandler)
      = Some 5"
    using T [of "testMessage PutOp (p2p_Put 1 [2]) 100 EngineType_ENGINE_TYPE_UNSPECIFIED" testHandler,
        THEN conjunct2, THEN conjunct2, THEN conjunct1]
    by (simp add: testHandler_fields testManager_Get EngineType_values)
  have d: "fst (handleSyncMsg_engine (testMessage PutOp (p2p_Put 1 [2]) 100 77) testHandler) = Some 5"
    using T [of "testMessage PutOp (p2p_Put 1 [2]) 100 77" testHandler,
        THEN conjunct2, THEN conjunct2, THEN conjunct1]
    by (simp add: testHandler_fields testManager_Get EngineType_ENGINE_TYPE_SNOWMAN_def
          EngineType_ENGINE_TYPE_AVALANCHE_def testManager_def EngineManager_Get_def)
  have f: "calls (snd (handleSyncMsg
                  (testMessage PutOp (p2p_Put 1 [2]) 100 EngineType_ENGINE_TYPE_AVALANCHE)
                  testHandler)) = [(2, Put 7 1 [2])]"
    by (subst handleSyncMsg_Some [OF b]) (simp add: handleSyncMsg_switch_def testHandler_fields)
  have e: "fst (handleSyncMsg_engine
               (testMessage PutOp (p2p_Put 1 [2]) 100 EngineType_ENGINE_TYPE_AVALANCHE) testHandler)
      = Some (fst (2 :: nat, Put 7 1 [2]))"
    using T [of "testMessage PutOp (p2p_Put 1 [2]) 100 EngineType_ENGINE_TYPE_AVALANCHE" testHandler,
        THEN conjunct2, THEN conjunct2, THEN conjunct2, THEN bspec, of "(2, Put 7 1 [2])"] f
    by (simp add: testHandler_fields)
  from a b c d e f show ?thesis by simp
qed

subsection \<open>Gossip on a linearized chain\<close>

lemma handleChanMsg_gossip:
  assumes "Message msg = message_GossipRequest"
    and "Type (ctxState h) = EngineType_ENGINE_TYPE_SNOWMAN"
    and "Engine_Get (EngineManager_Get (engineManager h) EngineType_ENGINE_TYPE_SNOWMAN)
           (State (ctxState h)) = Some e"
    and "Engine_Get (EngineManager_Get (engineManager h) EngineType_ENGINE_TYPE_AVALANCHE)
           (State (ctxState h)) = Some a"
  shows "handleChanMsg msg h =
     (case fst (engineCall a Gossip (chanLocked msg h)) of
        Some x \<Rightarrow>
          (Some x, handleChanMsg_deferred msg (clock h (ticks h)) (clock h (ticks h + 1))
                     (State (ctxState h) = NormalOp) (snd (engineCall a Gossip (chanLocked msg h))))
      | None \<Rightarrow>
          (fst (engineCall e Gossip (snd (engineCall a Gossip (chanLocked msg h)))),
           handleChanMsg_deferred msg (clock h (ticks h)) (clock h (ticks h + 1))
             (State (ctxState h) = NormalOp)
             (snd (engineCall e Gossip (snd (engineCall a Gossip (chanLocked msg h)))))))"
proof (cases "engineCall a Gossip (chanLocked msg h)")
  case (Pair x g)
  with assms show ?thesis
    by (cases x) (simp_all add: handleChanMsg_eq handleChanMsg_switch_def del: engineCall_fields)
qed

text \<open>
  Claim C7, as amended. On every gossip request handled while the current engine type is
  Snowman and an Avalanche engine is registered for the current lifecycle state, not only on
  the first one, \<^verbatim>\<open>handleChanMsg\<close> first invokes \<^verbatim>\<open>Gossip\<close> of the Avalanche engine. When
  that returns no error it then invokes \<^verbatim>\<open>Gossip\<close> of the current engine and returns its
  result; when it returns an error, that error is returned and the current engine is not
  invoked.
\<close>

theorem handleChanMsg_gossip_linearized:
  "Message msg = message_GossipRequest \<and>
   Type (ctxState h) = EngineType_ENGINE_TYPE_SNOWMAN \<and>
   Engine_Get (EngineManager_Get (engineManager h) EngineType_ENGINE_TYPE_SNOWMAN)
     (State (ctxState h)) = Some e \<and>
   Engine_Get (EngineManager_Get (engineManager h) EngineType_ENGINE_TYPE_AVALANCHE)
     (State (ctxState h)) = Some a \<longrightarrow>
   (err (engines h (calls h) a Gossip (ctxState h)) = None \<longrightarrow>
      calls (snd (handleChanMsg msg h)) = calls h @ [(a, Gossip), (e, Gossip)] \<and>
      fst (handleChanMsg msg h) =
        err (engines h (calls h @ [(a, Gossip)]) e Gossip
               (newState (engines h (calls h) a Gossip (ctxState h))))) \<and>
   (\<forall>x. err (engines h (calls h) a Gossip (ctxState h)) = Some x \<longrightarrow>
      calls (snd (handleChanMsg msg h)) = calls h @ [(a, Gossip)] \<and>
      fst (handleChanMsg msg h) = Some x)"
proof (intro impI, elim conjE)
  assume as: "Message msg = message_GossipRequest"
    "Type (ctxState h) = EngineType_ENGINE_TYPE_SNOWMAN"
    "Engine_Get (EngineManager_Get (engineManager h) EngineType_ENGINE_TYPE_SNOWMAN)
       (State (ctxState h)) = Some e"
    "Engine_Get (EngineManager_Get (engineManager h) EngineType_ENGINE_TYPE_AVALANCHE)
       (State (ctxState h)) = Some a"
  show "(err (engines h (calls h) a Gossip (ctxState h)) = None \<longrightarrow>
      calls (snd (handleChanMsg msg h)) = calls h @ [(a, Gossip), (e, Gossip)] \<and>
      fst (handleChanMsg msg h) =
        err (engines h (calls h @ [(a, Gossip)]) e Gossip
               (newState (engines h (calls h) a Gossip (ctxState h))))) \<and>
   (\<forall>x. err (engines h (calls h) a Gossip (ctxState h)) = Some x \<longrightarrow>
      calls (snd (handleChanMsg msg h)) = calls h @ [(a, Gossip)] \<and>
      fst (handleChanMsg msg h) = Some x)"
    by (simp add: handleChanMsg_gossip [OF as])
qed

theorem handleChanMsg_gossip_linearized_witness:
  "calls (snd (handleChanMsg (testMessage GossipRequestOp message_GossipRequest 100 0) testHandler))
     = [(2, Gossip), (5, Gossip)] \<and>
   fst (handleChanMsg (testMessage GossipRequestOp message_GossipRequest 100 0) testHandler) = None \<and>
   calls (snd (handleChanMsg (testMessage GossipRequestOp message_GossipRequest 100 0)
                 (testHandler\<lparr>engines := failingEngines\<rparr>)))
     = [(2, Gossip)] \<and>
   fst (handleChanMsg (testMessage GossipRequestOp message_GossipRequest 100 0)
          (testHandler\<lparr>engines := failingEngines\<rparr>)) = Some (EngineError 2)"
  using handleChanMsg_gossip_linearized
      [of "testMessage GossipRequestOp message_GossipRequest 100 0" testHandler 5 2]
    handleChanMsg_gossip_linearized
      [of "testMessage GossipRequestOp message_GossipRequest 100 0"
          "testHandler\<lparr>engines := failingEngines\<rparr>" 5 2]
  by (simp add: testHandler_fields testManager_Get testEngines_def failingEngines_def)

text \<open>
  The claim as it was stated fails: the gossip of the Avalanche frontier is not a one-time
  behaviour. On the second gossip request the Avalanche engine (2) is invoked again, before
  the Snowman engine (5).
\<close>

theorem handleChanMsg_gossip_counterexample:
  "calls (snd (handleChanMsg (testMessage GossipRequestOp message_GossipRequest 100 0)
     (snd (handleChanMsg (testMessage GossipRequestOp message_GossipRequest 100 0) testHandler))))
   = [(2, Gossip), (5, Gossip), (2, Gossip), (5, Gossip)]"
proof -
  let ?g = "testMessage GossipRequestOp message_GossipRequest 100 0"
  define h1 where "h1 = snd (handleChanMsg ?g testHandler)"
  have t: "Message ?g = message_GossipRequest"
    "Type (ctxState testHandler) = EngineType_ENGINE_TYPE_SNOWMAN"
    "Engine_Get (EngineManager_Get (engineManager testHandler) EngineType_ENGINE_TYPE_SNOWMAN)
       (State (ctxState testHandler)) = Some 5"
    "Engine_Get (EngineManager_Get (engineManager testHandler) EngineType_ENGINE_TYPE_AVALANCHE)
       (State (ctxState testHandler)) = Some 2"
    by (simp_all add: testHandler_fields testManager_Get)
  have h1: "calls h1 = [(2, Gossip), (5, Gossip)]" "ctxState h1 = ctxState testHandler"
    "engineManager h1 = engineManager testHandler" "engines h1 = testEngines"
    unfolding h1_def
    by (simp_all add: handleChanMsg_gossip [OF t] testHandler_fields testEngines_def)
  have t1: "Message ?g = message_GossipRequest"
    "Type (ctxState h1) = EngineType_ENGINE_TYPE_SNOWMAN"
    "Engine_Get (EngineManager_Get (engineManager h1) EngineType_ENGINE_TYPE_SNOWMAN)
       (State (ctxState h1)) = Some 5"
    "Engine_Get (EngineManager_Get (engineManager h1) EngineType_ENGINE_TYPE_AVALANCHE)
       (State (ctxState h1)) = Some 2"
    by (simp_all add: h1 testHandler_fields testManager_Get)
  have "calls (snd (handleChanMsg ?g h1)) = [(2, Gossip), (5, Gossip), (2, Gossip), (5, Gossip)]"
    by (simp add: handleChanMsg_gossip [OF t1] h1 testEngines_def)
  then show ?thesis by (simp add: h1_def)
qed

subsection \<open>An engine error in the sync loop\<close>


lemma dispatchSync_continue:
  "popUnexpiredMsg SyncQueue ExpiredCounter h = (Popped msg, h1) \<Longrightarrow>
   fst (handleSyncMsg msg h1) = None \<Longrightarrow>
   dispatchSync h = dispatchSync (snd (handleSyncMsg msg h1))"
  by (subst dispatchSync.simps) (cases "handleSyncMsg msg h1", simp)









end
